theory Spec2Isabelle
  imports Complex_Main "HOL-Library.Sublist"
begin

section \<open>JavaScript strings and values\<close>

text \<open>
  Strings are lists of 8-bit characters; the model is exact on ASCII text, which is what
  the character classes, the case conversions and the escapes below distinguish.
\<close>

text \<open>The ASCII part of the class \<^verbatim>\<open>\s\<close> and of what \<^verbatim>\<open>trim()\<close> strips.\<close>

definition isWhiteSpace :: "char \<Rightarrow> bool" where
  "isWhiteSpace c = (c \<in> set [CHR 0x09, CHR 0x0A, CHR 0x0B, CHR 0x0C, CHR 0x0D, CHR 0x20])"

definition trim :: "string \<Rightarrow> string" where
  "trim s = rev (dropWhile isWhiteSpace (rev (dropWhile isWhiteSpace s)))"

definition lowerLetters :: string where
  "lowerLetters = ''abcdefghijklmnopqrstuvwxyz''"

definition upperLetters :: string where
  "upperLetters = ''ABCDEFGHIJKLMNOPQRSTUVWXYZ''"

definition digitChars :: string where
  "digitChars = ''0123456789''"

definition toUpperChar :: "char \<Rightarrow> char" where
  "toUpperChar c = (case map_of (zip lowerLetters upperLetters) c of Some u \<Rightarrow> u | None \<Rightarrow> c)"

definition toLowerChar :: "char \<Rightarrow> char" where
  "toLowerChar c = (case map_of (zip upperLetters lowerLetters) c of Some l \<Rightarrow> l | None \<Rightarrow> c)"

definition toUpperCase :: "string \<Rightarrow> string" where
  "toUpperCase s = map toUpperChar s"

definition toLowerCase :: "string \<Rightarrow> string" where
  "toLowerCase s = map toLowerChar s"



text \<open>\<^verbatim>\<open>issues.join(', ')\<close>.\<close>

fun join :: "string \<Rightarrow> string list \<Rightarrow> string" where
  "join sep [] = []"
| "join sep [x] = x"
| "join sep (x # y # ys) = x @ sep @ join sep (y # ys)"

text \<open>\<^verbatim>\<open>s.includes(t)\<close>: \<open>t\<close> occurs in \<open>s\<close> as a contiguous run.\<close>

fun str_includes :: "string \<Rightarrow> string \<Rightarrow> bool" where
  "str_includes [] t = (t = [])"
| "str_includes (c # cs) t = (if prefix t (c # cs) then True else str_includes cs t)"

text \<open>
  The values \<^verbatim>\<open>user.email\<close> of a decoded auth response and a credential of the
  configuration can take, as far as the code tells them apart: absent, \<^verbatim>\<open>null\<close>, or a
  string (the code declares \<^verbatim>\<open>user: { email: string } | null\<close>).
\<close>

datatype jsval = Undefined | Null | Str string

fun truthy :: "jsval \<Rightarrow> bool" where
  "truthy Undefined = False"
| "truthy Null = False"
| "truthy (Str s) = (s \<noteq> [])"

text \<open>\<^verbatim>\<open>a || b\<close>.\<close>

definition js_or :: "jsval \<Rightarrow> jsval \<Rightarrow> jsval" where
  "js_or a b = (if truthy a then a else b)"

text \<open>\<^verbatim>\<open>String(n)\<close> for an integer \<open>n\<close>, as the template literals print an identifier.\<close>

fun digits :: "nat \<Rightarrow> string" where
  "digits n = (if n < 10 then [digitChars ! n] else digits (n div 10) @ [digitChars ! (n mod 10)])"

definition Number_toString :: "int \<Rightarrow> string" where
  "Number_toString i = (if i < 0 then ''-'' @ digits (nat (- i)) else digits (nat i))"

text \<open>
  \<^verbatim>\<open>data.token\<close> has no declared type: it is whatever the decoded body holds under that
  name, or \<^verbatim>\<open>undefined\<close>. The code hands it to \<^verbatim>\<open>localStorage.setItem\<close>, which stores
  its string conversion. The values below are the ones whose conversion is a text that may
  be empty or not: absent, \<^verbatim>\<open>null\<close>, a boolean, a number, a string, and arrays of these.
  Numbers are the integers (every number converts to a non-empty text). A plain object is
  left out: its conversion is \<^verbatim>\<open>[object Object]\<close>, or throws before anything is stored.
\<close>

datatype js_value =
    JUndefined
  | JNull
  | JBool bool
  | JNumber int
  | JString string
  | JArray "js_value list"

text \<open>
  The string conversion of ECMAScript. An array converts to its elements' conversions
  joined by commas, where \<^verbatim>\<open>null\<close> and \<^verbatim>\<open>undefined\<close> elements give the empty string.
\<close>

fun ToString :: "js_value \<Rightarrow> string" where
  "ToString JUndefined = ''undefined''"
| "ToString JNull = ''null''"
| "ToString (JBool b) = (if b then ''true'' else ''false'')"
| "ToString (JNumber n) = Number_toString n"
| "ToString (JString s) = s"
| "ToString (JArray xs) =
     join '','' (map (\<lambda>x. if x = JUndefined \<or> x = JNull then [] else ToString x) xs)"

subsection \<open>\<^verbatim>\<open>JSON.stringify\<close> of the user record\<close>

definition hexDigit :: "nat \<Rightarrow> char" where
  "hexDigit n = ''0123456789abcdef'' ! (n mod 16)"

definition JSON_escape :: "char \<Rightarrow> string" where
  "JSON_escape c =
     (if c = CHR 0x22 then [CHR 0x5C, CHR 0x22]
      else if c = CHR 0x5C then [CHR 0x5C, CHR 0x5C]
      else if c = CHR 0x08 then [CHR 0x5C, CHR ''b'']
      else if c = CHR 0x0C then [CHR 0x5C, CHR ''f'']
      else if c = CHR 0x0A then [CHR 0x5C, CHR ''n'']
      else if c = CHR 0x0D then [CHR 0x5C, CHR ''r'']
      else if c = CHR 0x09 then [CHR 0x5C, CHR ''t'']
      else if (of_char c :: nat) < 0x20
        then [CHR 0x5C, CHR ''u'', CHR ''0'', CHR ''0'',
              hexDigit ((of_char c :: nat) div 16), hexDigit (of_char c :: nat)]
      else [c])"

definition JSON_quote :: "string \<Rightarrow> string" where
  "JSON_quote s = [CHR 0x22] @ concat (map JSON_escape s) @ [CHR 0x22]"

text \<open>
  \<^verbatim>\<open>JSON.stringify({ email: v })\<close>: a property whose value is \<^verbatim>\<open>undefined\<close> is left
  out of the output.
\<close>

fun JSON_stringify_userData :: "jsval \<Rightarrow> string" where
  "JSON_stringify_userData Undefined = ''{}''"
| "JSON_stringify_userData Null = ''{'' @ JSON_quote ''email'' @ '':null}''"
| "JSON_stringify_userData (Str s) = ''{'' @ JSON_quote ''email'' @ '':'' @ JSON_quote s @ ''}''"

section \<open>The authentication context (\<^verbatim>\<open>src/contexts/AuthContext.tsx\<close>)\<close>

subsection \<open>Input validation\<close>

text \<open>
  \<^verbatim>\<open>/^[^\s@]+@[^\s@]+\.[^\s@]+$/.test(email)\<close>. The first \<^verbatim>\<open>@\<close> ends the local part;
  what follows it must hold no further \<^verbatim>\<open>@\<close> and a dot that is neither its first nor
  its last character.
\<close>

definition emailRegex_test :: "string \<Rightarrow> bool" where
  "emailRegex_test email =
     (let local = takeWhile (\<lambda>c. c \<noteq> CHR ''@'') email;
          rest = dropWhile (\<lambda>c. c \<noteq> CHR ''@'') email
      in local \<noteq> [] \<and> list_all (\<lambda>c. \<not> isWhiteSpace c) email \<and>
         (case rest of
            [] \<Rightarrow> False
          | _ # domain \<Rightarrow> CHR ''@'' \<notin> set domain \<and> CHR ''.'' \<in> set (butlast (tl domain))))"

text \<open>The language of the regular expression, written out.\<close>

definition email_shape :: "string \<Rightarrow> bool" where
  "email_shape email =
     (\<exists>a b c. email = a @ ''@'' @ b @ ''.'' @ c \<and> a \<noteq> [] \<and> b \<noteq> [] \<and> c \<noteq> [] \<and>
        list_all (\<lambda>x. \<not> isWhiteSpace x \<and> x \<noteq> CHR ''@'') (a @ b @ c))"

text \<open>\<^verbatim>\<open>/[A-Z]/.test\<close>, \<^verbatim>\<open>/[a-z]/.test\<close>, \<^verbatim>\<open>/[0-9]/.test\<close>.\<close>

definition hasUpperCase :: "string \<Rightarrow> bool" where
  "hasUpperCase password = list_ex (\<lambda>c. c \<in> set upperLetters) password"

definition hasLowerCase :: "string \<Rightarrow> bool" where
  "hasLowerCase password = list_ex (\<lambda>c. c \<in> set lowerLetters) password"

definition hasNumber :: "string \<Rightarrow> bool" where
  "hasNumber password = list_ex (\<lambda>c. c \<in> set digitChars) password"

text \<open>The checks \<^verbatim>\<open>login\<close> makes before it contacts the server.\<close>

definition login_valid :: "string \<Rightarrow> string \<Rightarrow> bool" where
  "login_valid email password =
     (if email = [] \<or> password = [] then False
      else if \<not> emailRegex_test email then False
      else True)"

text \<open>The checks \<^verbatim>\<open>signup\<close> makes before it contacts the server.\<close>

definition signup_valid :: "string \<Rightarrow> string \<Rightarrow> bool" where
  "signup_valid email password =
     (if email = [] \<or> password = [] then False
      else if \<not> emailRegex_test email then False
      else if length password < 8 then False
      else if \<not> hasUpperCase password \<or> \<not> hasLowerCase password \<or> \<not> hasNumber password
        then False
      else True)"

subsection \<open>Storage, network and session state\<close>

text \<open>The two keys of \<^verbatim>\<open>localStorage\<close> the code uses; \<open>None\<close> is an absent key.\<close>

record storage =
  userToken :: "string option"
  userData :: "string option"

text \<open>Truthiness of what \<^verbatim>\<open>getItem\<close> returns: a string, or \<^verbatim>\<open>null\<close>.\<close>

fun truthy_item :: "string option \<Rightarrow> bool" where
  "truthy_item None = False"
| "truthy_item (Some s) = (s \<noteq> [])"

text \<open>
  Values of request bodies. \<open>BNumber s\<close> stands for \<^verbatim>\<open>Number(s)\<close>.
\<close>

datatype body_val = BUndefined | BNull | BStr string | BBool bool | BNumber string

text \<open>
  A request is logged with the path handed to \<^verbatim>\<open>getApiUrl\<close> and the object handed to
  \<^verbatim>\<open>JSON.stringify\<close>.
\<close>

datatype request = GET string | POST string "(string \<times> body_val) list"

text \<open>
  What \<^verbatim>\<open>await response.json()\<close> gives for an auth endpoint: the promise rejects, or the
  body is \<^verbatim>\<open>null\<close> (reading a property of it throws), or it is a value of which the code
  reads \<^verbatim>\<open>data.token\<close> and \<^verbatim>\<open>data.user?.email\<close>.
\<close>

datatype auth_json = JsonRejects | JsonNull | Json js_value jsval

text \<open>\<^verbatim>\<open>await fetch(...)\<close>: rejects, or resolves with \<^verbatim>\<open>response.ok\<close> and a body.\<close>

datatype fetch_result = Rejects | Resolves bool auth_json

text \<open>
  The React state \<^verbatim>\<open>user\<close> is \<^verbatim>\<open>null\<close> (\<open>None\<close>), or the object \<^verbatim>\<open>{ email: v }\<close>
  built by a successful login, or whatever \<^verbatim>\<open>JSON.parse\<close> returned. \<^verbatim>\<open>JSON.parse\<close> is
  the platform's and is a parameter of the model: \<open>None\<close> when it throws.
\<close>

datatype 'j user_value = Built jsval | Parsed 'j

record 'j world =
  localStorage :: storage
  isAuthenticated :: bool
  user :: "'j user_value option"
  requests :: "request list"

text \<open>Storing the session, as every success path does.\<close>

definition store_session :: "js_value \<Rightarrow> jsval \<Rightarrow> 'j world \<Rightarrow> 'j world" where
  "store_session token userData' w =
     w\<lparr>localStorage := \<lparr>userToken = Some (ToString token),
                         userData = Some (JSON_stringify_userData userData')\<rparr>,
       isAuthenticated := True,
       user := Some (Built userData')\<rparr>"

definition credentials :: "string \<Rightarrow> string \<Rightarrow> (string \<times> body_val) list" where
  "credentials email password = [(''email'', BStr email), (''password'', BStr password)]"

definition issue :: "request \<Rightarrow> 'j world \<Rightarrow> 'j world" where
  "issue r w = w\<lparr>requests := requests w @ [r]\<rparr>"

subsection \<open>Operations\<close>


text \<open>
  The \<^verbatim>\<open>try\<close> block of \<^verbatim>\<open>login\<close>. The result is \<open>None\<close> when an exception leaves
  the block.
\<close>

definition login_try :: "fetch_result \<Rightarrow> string \<Rightarrow> string \<Rightarrow> 'j world \<Rightarrow> bool option \<times> 'j world" where
  "login_try response email password w =
     (if email = [] \<or> password = [] then (Some False, w)
      else if \<not> emailRegex_test email then (Some False, w)
      else
        let w1 = issue (POST ''/api/auth/login'' (credentials email password)) w in
        case response of
          Rejects \<Rightarrow> (None, w1)
        | Resolves ok body \<Rightarrow>
            if \<not> ok then (Some False, w1)
            else (case body of
                    JsonRejects \<Rightarrow> (None, w1)
                  | JsonNull \<Rightarrow> (None, w1)
                  | Json token' email' \<Rightarrow>
                      (Some True, store_session token' (js_or email' (Str email)) w1)))"

text \<open>\<^verbatim>\<open>login\<close>: the \<^verbatim>\<open>catch\<close> clause logs and returns \<^verbatim>\<open>false\<close>.\<close>

definition login :: "fetch_result \<Rightarrow> string \<Rightarrow> string \<Rightarrow> 'j world \<Rightarrow> bool \<times> 'j world" where
  "login response email password w =
     (case login_try response email password w of
        (Some b, w') \<Rightarrow> (b, w')
      | (None, w') \<Rightarrow> (False, w'))"

text \<open>
  The \<^verbatim>\<open>try\<close> block of \<^verbatim>\<open>signup\<close>; \<open>response\<close> answers the registration request,
  \<open>loginResponse\<close> the login request that follows it.
\<close>

definition signup_try ::
  "fetch_result \<Rightarrow> fetch_result \<Rightarrow> string \<Rightarrow> string \<Rightarrow> 'j world \<Rightarrow> bool option \<times> 'j world" where
  "signup_try response loginResponse email password w =
     (if email = [] \<or> password = [] then (Some False, w)
      else if \<not> emailRegex_test email then (Some False, w)
      else if length password < 8 then (Some False, w)
      else if \<not> hasUpperCase password \<or> \<not> hasLowerCase password \<or> \<not> hasNumber password
        then (Some False, w)
      else
        let w1 = issue (POST ''/api/auth/register'' (credentials email password)) w in
        case response of
          Rejects \<Rightarrow> (None, w1)
        | Resolves ok body \<Rightarrow>
            if \<not> ok then (Some False, w1)
            else (case body of
                    JsonRejects \<Rightarrow> (None, w1)
                  | JsonNull \<Rightarrow> (None, w1)
                  | Json _ email' \<Rightarrow>
                      let userData' = js_or email' (Str email);
                          w2 = issue (POST ''/api/auth/login'' (credentials email password)) w1
                      in case loginResponse of
                           Rejects \<Rightarrow> (None, w2)
                         | Resolves loginOk loginBody \<Rightarrow>
                             if \<not> loginOk then (Some False, w2)
                             else (case loginBody of
                                     JsonRejects \<Rightarrow> (None, w2)
                                   | JsonNull \<Rightarrow> (None, w2)
                                   | Json token' _ \<Rightarrow>
                                       (Some True, store_session token' userData' w2))))"

definition signup ::
  "fetch_result \<Rightarrow> fetch_result \<Rightarrow> string \<Rightarrow> string \<Rightarrow> 'j world \<Rightarrow> bool \<times> 'j world" where
  "signup response loginResponse email password w =
     (case signup_try response loginResponse email password w of
        (Some b, w') \<Rightarrow> (b, w')
      | (None, w') \<Rightarrow> (False, w'))"

definition logout :: "'j world \<Rightarrow> 'j world" where
  "logout w =
     w\<lparr>localStorage := \<lparr>userToken = None, userData = None\<rparr>,
       isAuthenticated := False,
       user := None\<rparr>"

text \<open>
  \<^verbatim>\<open>loadConfig\<close> comes from \<^verbatim>\<open>src/config\<close>, which is not among the sources; its result
  is a parameter. Either the call (or the traversal of its result) throws, or it yields
  \<^verbatim>\<open>testingAccount?.email\<close> and \<^verbatim>\<open>testingAccount?.password\<close> of the module named
  \<^verbatim>\<open>authentication\<close>.
\<close>

datatype config_result = ConfigThrows | Config jsval jsval

fun body_of :: "jsval \<Rightarrow> body_val" where
  "body_of Undefined = BUndefined"
| "body_of Null = BNull"
| "body_of (Str s) = BStr s"

text \<open>The effect run once on mount. Every exception is caught and logged.\<close>

definition autoLogin :: "config_result \<Rightarrow> fetch_result \<Rightarrow> 'j world \<Rightarrow> 'j world" where
  "autoLogin config response w =
     (if truthy_item (userToken (localStorage w)) \<and> truthy_item (userData (localStorage w)) then w
      else case config of
          ConfigThrows \<Rightarrow> w
        | Config email password \<Rightarrow>
            if truthy email \<and> truthy password then
              let w1 = issue (POST ''/api/auth/login''
                                [(''email'', body_of email), (''password'', body_of password)]) w
              in case response of
                   Rejects \<Rightarrow> w1
                 | Resolves ok body \<Rightarrow>
                     if ok then (case body of
                                   JsonRejects \<Rightarrow> w1
                                 | JsonNull \<Rightarrow> w1
                                 | Json token' email' \<Rightarrow>
                                     store_session token' (js_or email' email) w1)
                     else w1
            else w)"


text \<open>
  The session invariant of the specification: authenticated exactly when both persisted
  keys are present and non-empty.
\<close>

definition present_nonempty :: "string option \<Rightarrow> bool" where
  "present_nonempty v = (case v of None \<Rightarrow> False | Some s \<Rightarrow> s \<noteq> [])"

definition session_invariant :: "'j world \<Rightarrow> bool" where
  "session_invariant w =
     (isAuthenticated w =
        (present_nonempty (userToken (localStorage w)) \<and> present_nonempty (userData (localStorage w))))"


text \<open>What a failed \<^verbatim>\<open>login\<close> or \<^verbatim>\<open>signup\<close> must leave as it was.\<close>

definition session_unchanged :: "'j world \<Rightarrow> 'j world \<Rightarrow> bool" where
  "session_unchanged w w' =
     (localStorage w' = localStorage w \<and> isAuthenticated w' = isAuthenticated w \<and> user w' = user w)"

text \<open>
  The e-mail of the persisted user record as the specification words it: the submitted
  address when the response carries none (or an empty one), the response's otherwise.
\<close>

definition persisted_email :: "jsval \<Rightarrow> string \<Rightarrow> string" where
  "persisted_email response_email submitted =
     (case response_email of
        Str s \<Rightarrow> if s = [] then submitted else s
      | _ \<Rightarrow> submitted)"

text \<open>The state of a first visit: nothing persisted, nobody signed in.\<close>

definition empty_world :: "unit world" where
  "empty_world =
     \<lparr>localStorage = \<lparr>userToken = None, userData = None\<rparr>,
      isAuthenticated = False, user = None, requests = []\<rparr>"

section \<open>The data sections (\<^verbatim>\<open>src/components/HR.tsx\<close> and the IT module)\<close>

subsection \<open>Numbers and dates\<close>

text \<open>\<^verbatim>\<open>Math.round\<close>: the nearest integer, a tie going up.\<close>

definition Math_round :: "real \<Rightarrow> int" where
  "Math_round x = \<lfloor>x + 1 / 2\<rfloor>"

text \<open>
  \<^verbatim>\<open>new Date(s).getTime()\<close>; \<open>None\<close> is \<^verbatim>\<open>NaN\<close>. ECMAScript fixes the meaning of a
  date-only ISO string \<^verbatim>\<open>YYYY-MM-DD\<close>: midnight UTC of that day, in milliseconds since
  1970, when it names a day of the calendar, and \<^verbatim>\<open>NaN\<close> when the month is not one of
  01 to 12 or the day not one of 01 to 31. Every other string (a day such as 30 February
  among them) is left to the platform's parser, a parameter of the model.
\<close>

definition digit_value :: "char \<Rightarrow> nat option" where
  "digit_value c = map_of (zip digitChars [0 ..< 10]) c"

fun number_of_digits :: "string \<Rightarrow> nat option" where
  "number_of_digits [] = None"
| "number_of_digits [c] = digit_value c"
| "number_of_digits cs =
     (case (number_of_digits (butlast cs), digit_value (last cs)) of
        (Some n, Some d) \<Rightarrow> Some (10 * n + d)
      | _ \<Rightarrow> None)"

definition is_leap_year :: "nat \<Rightarrow> bool" where
  "is_leap_year y = (y mod 4 = 0 \<and> (y mod 100 \<noteq> 0 \<or> y mod 400 = 0))"

definition days_in_month :: "nat \<Rightarrow> nat \<Rightarrow> nat" where
  "days_in_month y m =
     (if m = 2 then (if is_leap_year y then 29 else 28)
      else if m \<in> set [4, 6, 9, 11] then 30
      else 31)"

text \<open>Days from 1970-01-01 to the given day of the proleptic Gregorian calendar.\<close>

definition days_from_civil :: "int \<Rightarrow> int \<Rightarrow> int \<Rightarrow> int" where
  "days_from_civil y m d =
     (let y' = (if m \<le> 2 then y - 1 else y);
          era = y' div 400;
          yoe = y' - era * 400;
          doy = (153 * (if m > 2 then m - 3 else m + 9) + 2) div 5 + d - 1;
          doe = yoe * 365 + yoe div 4 - yoe div 100 + doy
      in era * 146097 + doe - 719468)"

text \<open>The year, month and day of a string of the shape \<^verbatim>\<open>YYYY-MM-DD\<close>.\<close>

definition date_only_fields :: "string \<Rightarrow> (nat \<times> nat \<times> nat) option" where
  "date_only_fields s =
     (if length s = 10 \<and> s ! 4 = CHR ''-'' \<and> s ! 7 = CHR ''-'' then
        (case (number_of_digits (take 4 s), number_of_digits (take 2 (drop 5 s)),
               number_of_digits (drop 8 s)) of
           (Some y, Some m, Some d) \<Rightarrow> Some (y, m, d)
         | _ \<Rightarrow> None)
      else None)"

definition Date_getTime :: "(string \<Rightarrow> int option) \<Rightarrow> string \<Rightarrow> int option" where
  "Date_getTime platform s =
     (case date_only_fields s of
        None \<Rightarrow> platform s
      | Some (y, m, d) \<Rightarrow>
          if m < 1 \<or> 12 < m \<or> d < 1 \<or> 31 < d then None
          else if d \<le> days_in_month y m
            then Some (days_from_civil (int y) (int m) (int d) * 86400000)
          else platform s)"

subsection \<open>Fetching\<close>

text \<open>
  What a request comes to. \<^verbatim>\<open>fetch\<close> rejects with an error of the given name
  (\<^verbatim>\<open>AbortError\<close> when the controller aborted it), or resolves with \<^verbatim>\<open>response.ok\<close>
  and a body; decoding the body throws an error of the given name, or yields the
  envelope's \<^verbatim>\<open>data\<close>, of the type the interface declares.
\<close>

datatype 'a json_outcome = JsonThrows string | JsonData 'a

datatype 'a fetch_outcome = FetchRejects string | FetchResolves bool "'a json_outcome"

text \<open>\<^verbatim>\<open>fetchHrData\<close>; \<open>Inl\<close> carries the \<^verbatim>\<open>name\<close> of the error thrown.\<close>

fun fetchHrData :: "'a fetch_outcome \<Rightarrow> string + 'a" where
  "fetchHrData (FetchRejects name) = Inl name"
| "fetchHrData (FetchResolves ok body) =
     (if \<not> ok then Inl ''Error''
      else case body of JsonThrows name \<Rightarrow> Inl name | JsonData d \<Rightarrow> Inr d)"

text \<open>\<^verbatim>\<open>fetchItData\<close>, the same helper in the IT module.\<close>

fun fetchItData :: "'a fetch_outcome \<Rightarrow> string + 'a" where
  "fetchItData (FetchRejects name) = Inl name"
| "fetchItData (FetchResolves ok body) =
     (if \<not> ok then Inl ''Error''
      else case body of JsonThrows name \<Rightarrow> Inl name | JsonData d \<Rightarrow> Inr d)"

text \<open>
  The request inside every \<^verbatim>\<open>handleSubmit\<close>: \<^verbatim>\<open>fetch\<close> with \<^verbatim>\<open>POST\<close>, the check of
  \<^verbatim>\<open>response.ok\<close>, \<^verbatim>\<open>response.json()\<close> and \<^verbatim>\<open>json.data\<close>.
\<close>

fun post_row :: "'a fetch_outcome \<Rightarrow> string + 'a" where
  "post_row (FetchRejects name) = Inl name"
| "post_row (FetchResolves ok body) =
     (if \<not> ok then Inl ''Error''
      else case body of JsonThrows name \<Rightarrow> Inl name | JsonData d \<Rightarrow> Inr d)"

subsection \<open>Section state\<close>

text \<open>
  The \<^verbatim>\<open>useState\<close> cells every section with a list holds, and the log of the requests
  it issued. An asynchronous handler is modelled from its call to its completion.
\<close>

record ('row, 'form) data_section =
  rows :: "'row list"
  loading :: bool
  error :: "string option"
  isAddOpen :: bool
  isSubmitting :: bool
  formError :: "string option"
  formValues :: 'form
  sent :: "request list"

text \<open>\<^verbatim>\<open>if (!v.trim()) issues.push(msg)\<close>.\<close>

definition required :: "string \<Rightarrow> string \<Rightarrow> string list" where
  "required v msg = (if trim v = [] then [msg] else [])"

text \<open>\<^verbatim>\<open>v || null\<close> and \<^verbatim>\<open>v || undefined\<close> in a request body.\<close>

definition or_null :: "string \<Rightarrow> body_val" where
  "or_null v = (if v \<noteq> [] then BStr v else BNull)"

definition or_undefined :: "string \<Rightarrow> body_val" where
  "or_undefined v = (if v \<noteq> [] then BStr v else BUndefined)"

subsection \<open>Employees\<close>

record EmployeeApiRow =
  ea_id :: int
  ea_firstName :: string
  ea_lastName :: string
  ea_email :: string
  ea_department :: string
  ea_position :: string
  ea_status :: string
  ea_hiredAt :: "string option"

record Employee =
  e_id :: int
  e_name :: string
  e_department :: string
  e_position :: string
  e_email :: string
  e_status :: string
  e_joinDate :: string

record EmployeeForm =
  ef_firstName :: string
  ef_lastName :: string
  ef_email :: string
  ef_department :: string
  ef_position :: string
  ef_status :: string
  ef_hiredAt :: string

text \<open>The mapping inside \<^verbatim>\<open>load\<close>.\<close>

definition Employee_load_mapped :: "EmployeeApiRow \<Rightarrow> Employee" where
  "Employee_load_mapped row =
     \<lparr>e_id = ea_id row,
      e_name = ea_firstName row @ '' '' @ ea_lastName row,
      e_department = ea_department row,
      e_position = ea_position row,
      e_email = ea_email row,
      e_status = toUpperCase (take 1 (ea_status row)) @ drop 1 (ea_status row),
      e_joinDate = (case ea_hiredAt row of Some h \<Rightarrow> take 10 h | None \<Rightarrow> [])\<rparr>"

definition EmployeeDataSection_load ::
  "EmployeeApiRow list fetch_outcome \<Rightarrow> (Employee, 'f) data_section \<Rightarrow> (Employee, 'f) data_section" where
  "EmployeeDataSection_load outcome s =
     (let s1 = s\<lparr>loading := True, error := None, sent := sent s @ [GET ''/api/hr/employees'']\<rparr>
      in (case fetchHrData outcome of
            Inr rows' \<Rightarrow> s1\<lparr>rows := map Employee_load_mapped rows'\<rparr>
          | Inl name \<Rightarrow>
              if name \<noteq> ''AbortError''
              then s1\<lparr>error := Some ''Unable to load employees. Please try again later.''\<rparr>
              else s1)
         \<lparr>loading := False\<rparr>)"

definition Employee_issues :: "EmployeeForm \<Rightarrow> string list" where
  "Employee_issues f =
     required (ef_firstName f) ''First name is required'' @
     required (ef_lastName f) ''Last name is required'' @
     required (ef_email f) ''Email is required'' @
     required (ef_department f) ''Department is required'' @
     required (ef_position f) ''Position is required''"

definition Employee_body :: "EmployeeForm \<Rightarrow> (string \<times> body_val) list" where
  "Employee_body f =
     [(''firstName'', BStr (trim (ef_firstName f))),
      (''lastName'', BStr (trim (ef_lastName f))),
      (''email'', BStr (trim (ef_email f))),
      (''department'', BStr (trim (ef_department f))),
      (''position'', BStr (trim (ef_position f))),
      (''status'', BStr (ef_status f)),
      (''hiredAt'', or_undefined (ef_hiredAt f))]"

text \<open>The mapping inside \<^verbatim>\<open>handleSubmit\<close>.\<close>

definition Employee_created_mapped :: "EmployeeApiRow \<Rightarrow> Employee" where
  "Employee_created_mapped row =
     \<lparr>e_id = ea_id row,
      e_name = ea_firstName row @ '' '' @ ea_lastName row,
      e_department = ea_department row,
      e_position = ea_position row,
      e_email = ea_email row,
      e_status = toUpperCase (take 1 (ea_status row)) @ drop 1 (ea_status row),
      e_joinDate = (case ea_hiredAt row of Some h \<Rightarrow> take 10 h | None \<Rightarrow> [])\<rparr>"

definition EmployeeDataSection_handleSubmit ::
  "EmployeeApiRow fetch_outcome \<Rightarrow> (Employee, EmployeeForm) data_section \<Rightarrow> (Employee, EmployeeForm) data_section" where
  "EmployeeDataSection_handleSubmit outcome s =
     (if isSubmitting s then s
      else
        let issues = Employee_issues (formValues s) in
        if length issues > 0 then s\<lparr>formError := Some (join '', '' issues)\<rparr>
        else
          let s1 = s\<lparr>isSubmitting := True, formError := None,
                     sent := sent s @ [POST ''/api/hr/employees'' (Employee_body (formValues s))]\<rparr>
          in (case post_row outcome of
                Inr row \<Rightarrow> s1\<lparr>rows := rows s1 @ [Employee_created_mapped row], isAddOpen := False\<rparr>
              | Inl name \<Rightarrow> s1\<lparr>formError := Some ''Unable to create employee. Please try again.''\<rparr>)
             \<lparr>isSubmitting := False\<rparr>)"

text \<open>\<^verbatim>\<open>filteredEmployees\<close>.\<close>

definition filteredEmployees :: "string \<Rightarrow> Employee list \<Rightarrow> Employee list" where
  "filteredEmployees searchTerm employees =
     filter (\<lambda>emp.
        str_includes (toLowerCase (e_name emp)) (toLowerCase searchTerm) \<or>
        str_includes (toLowerCase (e_department emp)) (toLowerCase searchTerm) \<or>
        str_includes (toLowerCase (e_position emp)) (toLowerCase searchTerm)) employees"

subsection \<open>Benefits\<close>

text \<open>\<^verbatim>\<open>isActive: number | boolean\<close>, read for its truthiness.\<close>

datatype number_or_boolean = ANumber int | ABoolean bool

fun truthy_flag :: "number_or_boolean \<Rightarrow> bool" where
  "truthy_flag (ANumber n) = (n \<noteq> 0)"
| "truthy_flag (ABoolean b) = b"

record BenefitApiRow =
  ba_id :: int
  ba_name :: string
  ba_type :: string
  ba_description :: "string option"
  ba_isActive :: number_or_boolean

record Benefit =
  b_id :: int
  b_name :: string
  b_type :: string
  b_coverage :: string
  b_employees :: "int option"
  b_cost :: "string option"

record BenefitForm =
  bf_name :: string
  bf_type :: string
  bf_description :: string
  bf_isActive :: bool

definition Benefit_load_mapped :: "BenefitApiRow \<Rightarrow> Benefit" where
  "Benefit_load_mapped row =
     \<lparr>b_id = ba_id row,
      b_name = ba_name row,
      b_type = ba_type row,
      b_coverage = (case ba_description row of Some d \<Rightarrow> d | None \<Rightarrow> ''N/A''),
      b_employees = None,
      b_cost = Some (if truthy_flag (ba_isActive row) then ''Active'' else ''Inactive'')\<rparr>"

definition BenefitsSection_load ::
  "BenefitApiRow list fetch_outcome \<Rightarrow> (Benefit, 'f) data_section \<Rightarrow> (Benefit, 'f) data_section" where
  "BenefitsSection_load outcome s =
     (let s1 = s\<lparr>loading := True, error := None, sent := sent s @ [GET ''/api/hr/benefits'']\<rparr>
      in (case fetchHrData outcome of
            Inr rows' \<Rightarrow> s1\<lparr>rows := map Benefit_load_mapped rows'\<rparr>
          | Inl name \<Rightarrow>
              if name \<noteq> ''AbortError''
              then s1\<lparr>error := Some ''Unable to load benefits. Please try again later.''\<rparr>
              else s1)
         \<lparr>loading := False\<rparr>)"

definition Benefit_issues :: "BenefitForm \<Rightarrow> string list" where
  "Benefit_issues f =
     required (bf_name f) ''Name is required'' @
     required (bf_type f) ''Type is required''"

definition Benefit_body :: "BenefitForm \<Rightarrow> (string \<times> body_val) list" where
  "Benefit_body f =
     [(''name'', BStr (trim (bf_name f))),
      (''type'', BStr (trim (bf_type f))),
      (''description'', or_null (bf_description f)),
      (''isActive'', BBool (bf_isActive f))]"

definition Benefit_created_mapped :: "BenefitApiRow \<Rightarrow> Benefit" where
  "Benefit_created_mapped row =
     \<lparr>b_id = ba_id row,
      b_name = ba_name row,
      b_type = ba_type row,
      b_coverage = (case ba_description row of Some d \<Rightarrow> d | None \<Rightarrow> ''N/A''),
      b_employees = None,
      b_cost = Some (if truthy_flag (ba_isActive row) then ''Active'' else ''Inactive'')\<rparr>"

definition BenefitsSection_handleSubmit ::
  "BenefitApiRow fetch_outcome \<Rightarrow> (Benefit, BenefitForm) data_section \<Rightarrow> (Benefit, BenefitForm) data_section" where
  "BenefitsSection_handleSubmit outcome s =
     (if isSubmitting s then s
      else
        let issues = Benefit_issues (formValues s) in
        if length issues > 0 then s\<lparr>formError := Some (join '', '' issues)\<rparr>
        else
          let s1 = s\<lparr>isSubmitting := True, formError := None,
                     sent := sent s @ [POST ''/api/hr/benefits'' (Benefit_body (formValues s))]\<rparr>
          in (case post_row outcome of
                Inr row \<Rightarrow> s1\<lparr>rows := rows s1 @ [Benefit_created_mapped row], isAddOpen := False\<rparr>
              | Inl name \<Rightarrow> s1\<lparr>formError := Some ''Unable to create benefit. Please try again.''\<rparr>)
             \<lparr>isSubmitting := False\<rparr>)"

subsection \<open>Onboarding\<close>

record OnboardingApiRow =
  oa_id :: int
  oa_employeeId :: int
  oa_position :: string
  oa_status :: string
  oa_startedAt :: "string option"
  oa_completedAt :: "string option"

record OnboardingTask =
  o_id :: int
  o_employee :: string
  o_position :: string
  o_startDate :: string
  o_status :: string
  o_progress :: int

record OnboardingForm =
  of_employeeId :: string
  of_position :: string
  of_status :: string
  of_startedAt :: string

definition Onboarding_load_mapped :: "OnboardingApiRow \<Rightarrow> OnboardingTask" where
  "Onboarding_load_mapped row =
     \<lparr>o_id = oa_id row,
      o_employee = ''Employee #'' @ Number_toString (oa_employeeId row),
      o_position = oa_position row,
      o_startDate = (case oa_startedAt row of Some d \<Rightarrow> take 10 d | None \<Rightarrow> ''Not started''),
      o_status =
        (if oa_status row = ''completed'' then ''Completed''
         else if oa_status row = ''in_progress'' then ''In Progress''
         else if oa_status row = ''not_started'' then ''Pending''
         else oa_status row),
      o_progress =
        (if oa_status row = ''completed'' then 100
         else if oa_status row = ''not_started'' then 0
         else if oa_status row = ''in_progress'' then 50
         else 25)\<rparr>"

definition OnboardingSection_load ::
  "OnboardingApiRow list fetch_outcome \<Rightarrow> (OnboardingTask, 'f) data_section \<Rightarrow> (OnboardingTask, 'f) data_section" where
  "OnboardingSection_load outcome s =
     (let s1 = s\<lparr>loading := True, error := None, sent := sent s @ [GET ''/api/hr/onboarding'']\<rparr>
      in (case fetchHrData outcome of
            Inr rows' \<Rightarrow> s1\<lparr>rows := map Onboarding_load_mapped rows'\<rparr>
          | Inl name \<Rightarrow>
              if name \<noteq> ''AbortError''
              then s1\<lparr>error := Some ''Unable to load onboarding data. Please try again later.''\<rparr>
              else s1)
         \<lparr>loading := False\<rparr>)"

text \<open>
  \<^verbatim>\<open>Number.isNaN(Number(v))\<close> is the platform's and is a parameter, \<open>isNaN_Number\<close>.
\<close>

definition Onboarding_issues :: "(string \<Rightarrow> bool) \<Rightarrow> OnboardingForm \<Rightarrow> string list" where
  "Onboarding_issues isNaN_Number f =
     (if trim (of_employeeId f) = [] \<or> isNaN_Number (of_employeeId f)
      then [''Valid employee ID is required''] else []) @
     required (of_position f) ''Position is required''"

definition Onboarding_body :: "OnboardingForm \<Rightarrow> (string \<times> body_val) list" where
  "Onboarding_body f =
     [(''employeeId'', BNumber (of_employeeId f)),
      (''position'', BStr (trim (of_position f))),
      (''status'', BStr (of_status f)),
      (''startedAt'', or_null (of_startedAt f))]"

definition Onboarding_created_mapped :: "OnboardingApiRow \<Rightarrow> OnboardingTask" where
  "Onboarding_created_mapped row =
     \<lparr>o_id = oa_id row,
      o_employee = ''Employee #'' @ Number_toString (oa_employeeId row),
      o_position = oa_position row,
      o_startDate = (case oa_startedAt row of Some d \<Rightarrow> take 10 d | None \<Rightarrow> ''Not started''),
      o_status =
        (if oa_status row = ''completed'' then ''Completed''
         else if oa_status row = ''in_progress'' then ''In Progress''
         else if oa_status row = ''not_started'' then ''Pending''
         else oa_status row),
      o_progress =
        (if oa_status row = ''completed'' then 100
         else if oa_status row = ''not_started'' then 0
         else if oa_status row = ''in_progress'' then 50
         else 25)\<rparr>"

definition OnboardingSection_handleSubmit ::
  "(string \<Rightarrow> bool) \<Rightarrow> OnboardingApiRow fetch_outcome \<Rightarrow>
   (OnboardingTask, OnboardingForm) data_section \<Rightarrow> (OnboardingTask, OnboardingForm) data_section" where
  "OnboardingSection_handleSubmit isNaN_Number outcome s =
     (if isSubmitting s then s
      else
        let issues = Onboarding_issues isNaN_Number (formValues s) in
        if length issues > 0 then s\<lparr>formError := Some (join '', '' issues)\<rparr>
        else
          let s1 = s\<lparr>isSubmitting := True, formError := None,
                     sent := sent s @ [POST ''/api/hr/onboarding'' (Onboarding_body (formValues s))]\<rparr>
          in (case post_row outcome of
                Inr row \<Rightarrow> s1\<lparr>rows := rows s1 @ [Onboarding_created_mapped row], isAddOpen := False\<rparr>
              | Inl name \<Rightarrow> s1\<lparr>formError := Some ''Unable to create onboarding flow. Please try again.''\<rparr>)
             \<lparr>isSubmitting := False\<rparr>)"

subsection \<open>Recruitment\<close>

record JobPostingApiRow =
  ja_id :: int
  ja_title :: string
  ja_department :: string
  ja_status :: string
  ja_location :: "string option"
  ja_createdAt :: string
  ja_updatedAt :: string

record JobPosting =
  j_id :: int
  j_title :: string
  j_department :: string
  j_applicants :: "int option"
  j_status :: string
  j_postedDate :: string

record JobPostingForm =
  jf_title :: string
  jf_department :: string
  jf_status :: string
  jf_location :: string

definition JobPosting_load_mapped :: "JobPostingApiRow \<Rightarrow> JobPosting" where
  "JobPosting_load_mapped row =
     \<lparr>j_id = ja_id row,
      j_title = ja_title row,
      j_department = ja_department row,
      j_applicants = None,
      j_status = toUpperCase (take 1 (ja_status row)) @ drop 1 (ja_status row),
      j_postedDate = take 10 (ja_createdAt row)\<rparr>"

definition RecruitmentSection_load ::
  "JobPostingApiRow list fetch_outcome \<Rightarrow> (JobPosting, 'f) data_section \<Rightarrow> (JobPosting, 'f) data_section" where
  "RecruitmentSection_load outcome s =
     (let s1 = s\<lparr>loading := True, error := None, sent := sent s @ [GET ''/api/hr/recruitment'']\<rparr>
      in (case fetchHrData outcome of
            Inr rows' \<Rightarrow> s1\<lparr>rows := map JobPosting_load_mapped rows'\<rparr>
          | Inl name \<Rightarrow>
              if name \<noteq> ''AbortError''
              then s1\<lparr>error := Some ''Unable to load job postings. Please try again later.''\<rparr>
              else s1)
         \<lparr>loading := False\<rparr>)"

definition JobPosting_issues :: "JobPostingForm \<Rightarrow> string list" where
  "JobPosting_issues f =
     required (jf_title f) ''Title is required'' @
     required (jf_department f) ''Department is required''"

definition JobPosting_body :: "JobPostingForm \<Rightarrow> (string \<times> body_val) list" where
  "JobPosting_body f =
     [(''title'', BStr (trim (jf_title f))),
      (''department'', BStr (trim (jf_department f))),
      (''status'', BStr (jf_status f)),
      (''location'', or_null (jf_location f))]"

definition JobPosting_created_mapped :: "JobPostingApiRow \<Rightarrow> JobPosting" where
  "JobPosting_created_mapped row =
     \<lparr>j_id = ja_id row,
      j_title = ja_title row,
      j_department = ja_department row,
      j_applicants = None,
      j_status = toUpperCase (take 1 (ja_status row)) @ drop 1 (ja_status row),
      j_postedDate = take 10 (ja_createdAt row)\<rparr>"

definition RecruitmentSection_handleSubmit ::
  "JobPostingApiRow fetch_outcome \<Rightarrow> (JobPosting, JobPostingForm) data_section \<Rightarrow>
   (JobPosting, JobPostingForm) data_section" where
  "RecruitmentSection_handleSubmit outcome s =
     (if isSubmitting s then s
      else
        let issues = JobPosting_issues (formValues s) in
        if length issues > 0 then s\<lparr>formError := Some (join '', '' issues)\<rparr>
        else
          let s1 = s\<lparr>isSubmitting := True, formError := None,
                     sent := sent s @ [POST ''/api/hr/recruitment'' (JobPosting_body (formValues s))]\<rparr>
          in (case post_row outcome of
                Inr row \<Rightarrow> s1\<lparr>rows := rows s1 @ [JobPosting_created_mapped row], isAddOpen := False\<rparr>
              | Inl name \<Rightarrow> s1\<lparr>formError := Some ''Unable to create job posting. Please try again.''\<rparr>)
             \<lparr>isSubmitting := False\<rparr>)"

subsection \<open>Absences\<close>

record AbsenceApiRow =
  aa_id :: int
  aa_employeeId :: int
  aa_type :: string
  aa_status :: string
  aa_startDate :: string
  aa_endDate :: string
  aa_createdAt :: string
  aa_updatedAt :: string

text \<open>\<open>a_days\<close> is \<open>None\<close> when the count is \<^verbatim>\<open>NaN\<close>.\<close>

record Absence =
  a_id :: int
  a_employee :: string
  a_type :: string
  a_startDate :: string
  a_endDate :: string
  a_days :: "int option"
  a_status :: string

record AbsenceForm =
  af_employeeId :: string
  af_type :: string
  af_status :: string
  af_startDate :: string
  af_endDate :: string

definition Absence_load_mapped :: "(string \<Rightarrow> int option) \<Rightarrow> AbsenceApiRow \<Rightarrow> Absence" where
  "Absence_load_mapped platform row =
     (let start = Date_getTime platform (aa_startDate row);
          end' = Date_getTime platform (aa_endDate row);
          days = (case (start, end') of
                    (Some s, Some e) \<Rightarrow>
                      let diffMs = e - s
                      in Some (max 1 (Math_round (real_of_int diffMs / (1000 * 60 * 60 * 24)) + 1))
                  | _ \<Rightarrow> None)
      in \<lparr>a_id = aa_id row,
          a_employee = ''Employee #'' @ Number_toString (aa_employeeId row),
          a_type = toUpperCase (take 1 (aa_type row)) @ drop 1 (aa_type row),
          a_startDate = take 10 (aa_startDate row),
          a_endDate = take 10 (aa_endDate row),
          a_days = days,
          a_status = toUpperCase (take 1 (aa_status row)) @ drop 1 (aa_status row)\<rparr>)"

definition AbsenceManagementSection_load ::
  "(string \<Rightarrow> int option) \<Rightarrow> AbsenceApiRow list fetch_outcome \<Rightarrow>
   (Absence, 'f) data_section \<Rightarrow> (Absence, 'f) data_section" where
  "AbsenceManagementSection_load platform outcome s =
     (let s1 = s\<lparr>loading := True, error := None, sent := sent s @ [GET ''/api/hr/absences'']\<rparr>
      in (case fetchHrData outcome of
            Inr rows' \<Rightarrow> s1\<lparr>rows := map (Absence_load_mapped platform) rows'\<rparr>
          | Inl name \<Rightarrow>
              if name \<noteq> ''AbortError''
              then s1\<lparr>error := Some ''Unable to load absences. Please try again later.''\<rparr>
              else s1)
         \<lparr>loading := False\<rparr>)"

definition Absence_issues :: "(string \<Rightarrow> bool) \<Rightarrow> AbsenceForm \<Rightarrow> string list" where
  "Absence_issues isNaN_Number f =
     (if trim (af_employeeId f) = [] \<or> isNaN_Number (af_employeeId f)
      then [''Valid employee ID is required''] else []) @
     (if af_startDate f = [] then [''Start date is required''] else []) @
     (if af_endDate f = [] then [''End date is required''] else [])"

definition Absence_body :: "AbsenceForm \<Rightarrow> (string \<times> body_val) list" where
  "Absence_body f =
     [(''employeeId'', BNumber (af_employeeId f)),
      (''type'', BStr (af_type f)),
      (''status'', BStr (af_status f)),
      (''startDate'', BStr (af_startDate f)),
      (''endDate'', BStr (af_endDate f))]"

definition Absence_created_mapped :: "(string \<Rightarrow> int option) \<Rightarrow> AbsenceApiRow \<Rightarrow> Absence" where
  "Absence_created_mapped platform row =
     (let start = Date_getTime platform (aa_startDate row);
          end' = Date_getTime platform (aa_endDate row);
          days = (case (start, end') of
                    (Some s, Some e) \<Rightarrow>
                      let diffMs = e - s
                      in Some (max 1 (Math_round (real_of_int diffMs / (1000 * 60 * 60 * 24)) + 1))
                  | _ \<Rightarrow> None)
      in \<lparr>a_id = aa_id row,
          a_employee = ''Employee #'' @ Number_toString (aa_employeeId row),
          a_type = toUpperCase (take 1 (aa_type row)) @ drop 1 (aa_type row),
          a_startDate = take 10 (aa_startDate row),
          a_endDate = take 10 (aa_endDate row),
          a_days = days,
          a_status = toUpperCase (take 1 (aa_status row)) @ drop 1 (aa_status row)\<rparr>)"

definition AbsenceManagementSection_handleSubmit ::
  "(string \<Rightarrow> bool) \<Rightarrow> (string \<Rightarrow> int option) \<Rightarrow> AbsenceApiRow fetch_outcome \<Rightarrow>
   (Absence, AbsenceForm) data_section \<Rightarrow> (Absence, AbsenceForm) data_section" where
  "AbsenceManagementSection_handleSubmit isNaN_Number platform outcome s =
     (if isSubmitting s then s
      else
        let issues = Absence_issues isNaN_Number (formValues s) in
        if length issues > 0 then s\<lparr>formError := Some (join '', '' issues)\<rparr>
        else
          let s1 = s\<lparr>isSubmitting := True, formError := None,
                     sent := sent s @ [POST ''/api/hr/absences'' (Absence_body (formValues s))]\<rparr>
          in (case post_row outcome of
                Inr row \<Rightarrow>
                  s1\<lparr>rows := rows s1 @ [Absence_created_mapped platform row], isAddOpen := False\<rparr>
              | Inl name \<Rightarrow> s1\<lparr>formError := Some ''Unable to create absence record. Please try again.''\<rparr>)
             \<lparr>isSubmitting := False\<rparr>)"

subsection \<open>IT overview\<close>

record ItOverviewApi =
  va_managedDevices :: int
  va_openTickets :: int

record ItOverview =
  managedDevices :: int
  openTickets :: int
  v_loading :: bool
  v_error :: "string option"
  v_sent :: "request list"

definition ItOverviewSection_load :: "ItOverviewApi fetch_outcome \<Rightarrow> ItOverview \<Rightarrow> ItOverview" where
  "ItOverviewSection_load outcome s =
     (let s1 = s\<lparr>v_loading := True, v_error := None, v_sent := v_sent s @ [GET ''/api/it/overview'']\<rparr>
      in (case fetchItData outcome of
            Inr overview \<Rightarrow>
              s1\<lparr>managedDevices := va_managedDevices overview, openTickets := va_openTickets overview\<rparr>
          | Inl name \<Rightarrow>
              if name \<noteq> ''AbortError''
              then s1\<lparr>v_error := Some ''Unable to load IT overview. Please try again later.''\<rparr>
              else s1)
         \<lparr>v_loading := False\<rparr>)"

subsection \<open>IT devices\<close>

record ItDeviceApiRow =
  da_id :: int
  da_label :: string
  da_owner :: string
  da_type :: string
  da_status :: string

record ItDevice =
  d_id :: int
  d_label :: string
  d_owner :: string
  d_type :: string
  d_status :: string

definition ItDevice_load_mapped :: "ItDeviceApiRow \<Rightarrow> ItDevice" where
  "ItDevice_load_mapped row =
     \<lparr>d_id = da_id row,
      d_label = da_label row,
      d_owner = da_owner row,
      d_type = da_type row,
      d_status = da_status row\<rparr>"

definition ItDevicesSection_load ::
  "ItDeviceApiRow list fetch_outcome \<Rightarrow> (ItDevice, 'f) data_section \<Rightarrow> (ItDevice, 'f) data_section" where
  "ItDevicesSection_load outcome s =
     (let s1 = s\<lparr>loading := True, error := None, sent := sent s @ [GET ''/api/it/devices'']\<rparr>
      in (case fetchItData outcome of
            Inr rows' \<Rightarrow> s1\<lparr>rows := map ItDevice_load_mapped rows'\<rparr>
          | Inl name \<Rightarrow>
              if name \<noteq> ''AbortError''
              then s1\<lparr>error := Some ''Unable to load devices. Please try again later.''\<rparr>
              else s1)
         \<lparr>loading := False\<rparr>)"

subsection \<open>IT tickets\<close>

record ItTicketApiRow =
  ta_id :: int
  ta_title :: string
  ta_owner :: string
  ta_status :: string
  ta_priority :: string

record ItTicket =
  t_id :: int
  t_title :: string
  t_owner :: string
  t_status :: string
  t_priority :: string

record ItTicketForm =
  tf_title :: string
  tf_owner :: string
  tf_status :: string
  tf_priority :: string

definition ItTicket_load_mapped :: "ItTicketApiRow \<Rightarrow> ItTicket" where
  "ItTicket_load_mapped row =
     \<lparr>t_id = ta_id row,
      t_title = ta_title row,
      t_owner = ta_owner row,
      t_status = ta_status row,
      t_priority = ta_priority row\<rparr>"

definition ItTicketsSection_load ::
  "ItTicketApiRow list fetch_outcome \<Rightarrow> (ItTicket, 'f) data_section \<Rightarrow> (ItTicket, 'f) data_section" where
  "ItTicketsSection_load outcome s =
     (let s1 = s\<lparr>loading := True, error := None, sent := sent s @ [GET ''/api/it/tickets'']\<rparr>
      in (case fetchItData outcome of
            Inr rows' \<Rightarrow> s1\<lparr>rows := map ItTicket_load_mapped rows'\<rparr>
          | Inl name \<Rightarrow>
              if name \<noteq> ''AbortError''
              then s1\<lparr>error := Some ''Unable to load tickets. Please try again later.''\<rparr>
              else s1)
         \<lparr>loading := False\<rparr>)"

definition ItTicket_issues :: "ItTicketForm \<Rightarrow> string list" where
  "ItTicket_issues f =
     required (tf_title f) ''Title is required'' @
     required (tf_owner f) ''Owner is required''"

definition ItTicket_body :: "ItTicketForm \<Rightarrow> (string \<times> body_val) list" where
  "ItTicket_body f =
     [(''title'', BStr (trim (tf_title f))),
      (''owner'', BStr (trim (tf_owner f))),
      (''status'', BStr (tf_status f)),
      (''priority'', BStr (tf_priority f))]"

definition ItTicket_created_mapped :: "ItTicketApiRow \<Rightarrow> ItTicket" where
  "ItTicket_created_mapped row =
     \<lparr>t_id = ta_id row,
      t_title = ta_title row,
      t_owner = ta_owner row,
      t_status = ta_status row,
      t_priority = ta_priority row\<rparr>"

definition ItTicketsSection_handleSubmit ::
  "ItTicketApiRow fetch_outcome \<Rightarrow> (ItTicket, ItTicketForm) data_section \<Rightarrow>
   (ItTicket, ItTicketForm) data_section" where
  "ItTicketsSection_handleSubmit outcome s =
     (if isSubmitting s then s
      else
        let issues = ItTicket_issues (formValues s) in
        if length issues > 0 then s\<lparr>formError := Some (join '', '' issues)\<rparr>
        else
          let s1 = s\<lparr>isSubmitting := True, formError := None,
                     sent := sent s @ [POST ''/api/it/tickets'' (ItTicket_body (formValues s))]\<rparr>
          in (case post_row outcome of
                Inr row \<Rightarrow> s1\<lparr>rows := rows s1 @ [ItTicket_created_mapped row], isAddOpen := False\<rparr>
              | Inl name \<Rightarrow> s1\<lparr>formError := Some ''Unable to create ticket. Please try again.''\<rparr>)
             \<lparr>isSubmitting := False\<rparr>)"

subsection \<open>Notions of the specification\<close>

text \<open>A field that is empty or holds white space only.\<close>

definition blank :: "string \<Rightarrow> bool" where
  "blank v = list_all isWhiteSpace v"

text \<open>
  What an \<^verbatim>\<open><input type="date">\<close> holds: the empty string, or a date written with
  digits and hyphens.
\<close>

definition date_input_value :: "string \<Rightarrow> bool" where
  "date_input_value v = (if v = [] then True else list_all (\<lambda>c. c \<in> set ''0123456789-'') v)"

text \<open>
  Title case of an enum value: its words, which an underscore or a space separates, each
  with the first letter in upper case and the others in lower case, joined by spaces.
\<close>

fun split_words :: "string \<Rightarrow> string list" where
  "split_words [] = [[]]"
| "split_words (c # cs) =
     (if c = CHR ''_'' \<or> c = CHR '' '' then [] # split_words cs
      else (case split_words cs of [] \<Rightarrow> [[c]] | w # ws \<Rightarrow> (c # w) # ws))"

definition title_case :: "string \<Rightarrow> string" where
  "title_case s =
     join '' '' (map (\<lambda>w. toUpperCase (take 1 w) @ toLowerCase (drop 1 w)) (split_words s))"

text \<open>An enum value that is one word in lower-case letters.\<close>

definition lower_word :: "string \<Rightarrow> bool" where
  "lower_word s = list_all (\<lambda>c. c \<in> set lowerLetters) s"

text \<open>The list fetch failed: no decoded list came back.\<close>

fun fetch_failed :: "'a fetch_outcome \<Rightarrow> bool" where
  "fetch_failed (FetchRejects name) = True"
| "fetch_failed (FetchResolves ok body) =
     (if ok then (case body of JsonThrows name \<Rightarrow> True | JsonData d \<Rightarrow> False) else True)"

text \<open>The failure is the abort the unmount triggers.\<close>

fun aborted :: "'a fetch_outcome \<Rightarrow> bool" where
  "aborted (FetchRejects name) = (name = ''AbortError'')"
| "aborted (FetchResolves ok body) =
     (if ok then (case body of JsonThrows name \<Rightarrow> name = ''AbortError'' | JsonData d \<Rightarrow> False)
      else False)"

text \<open>\<open>field\<close> contains \<open>term\<close> as a substring, letter case aside.\<close>

definition contains_ignoring_case :: "string \<Rightarrow> string \<Rightarrow> bool" where
  "contains_ignoring_case field term' =
     (\<exists>u w v. field = u @ w @ v \<and> toLowerCase w = toLowerCase term')"

text \<open>The state a section mounts with.\<close>

definition mounted :: "'form \<Rightarrow> ('row, 'form) data_section" where
  "mounted f =
     \<lparr>rows = [], loading = True, error = None, isAddOpen = False, isSubmitting = False,
      formError = None, formValues = f, sent = []\<rparr>"

subsection \<open>Sample values of the platform parameters\<close>

text \<open>
  \<^verbatim>\<open>Number.isNaN(Number(v))\<close> after ECMAScript's grammar of numeric strings: white space
  is stripped, the empty string is \<open>0\<close>, and what remains must be a signed decimal
  literal (or \<^verbatim>\<open>Infinity\<close>) or an unsigned binary, octal or hexadecimal integer.
\<close>

definition isDigit :: "char \<Rightarrow> bool" where
  "isDigit c = (c \<in> set digitChars)"

definition exponent_ok :: "string \<Rightarrow> bool" where
  "exponent_ok r =
     (case r of
        [] \<Rightarrow> True
      | c # r' \<Rightarrow>
          c \<in> set ''eE'' \<and>
          (let ds = (case r' of [] \<Rightarrow> [] | s # r'' \<Rightarrow> if s \<in> set ''+-'' then r'' else r')
           in ds \<noteq> [] \<and> list_all isDigit ds))"

definition unsigned_decimal_ok :: "string \<Rightarrow> bool" where
  "unsigned_decimal_ok u =
     (if u = ''Infinity'' then True
      else
        let ip = takeWhile isDigit u; r = dropWhile isDigit u in
        case r of
          [] \<Rightarrow> ip \<noteq> []
        | c # r' \<Rightarrow>
            if c = CHR ''.''
            then (ip \<noteq> [] \<or> takeWhile isDigit r' \<noteq> []) \<and> exponent_ok (dropWhile isDigit r')
            else ip \<noteq> [] \<and> exponent_ok r)"

definition non_decimal_ok :: "string \<Rightarrow> bool" where
  "non_decimal_ok t =
     (case t of
        z # x # ds \<Rightarrow>
          z = CHR ''0'' \<and> ds \<noteq> [] \<and>
          (if x \<in> set ''bB'' then list_all (\<lambda>c. c \<in> set ''01'') ds
           else if x \<in> set ''oO'' then list_all (\<lambda>c. c \<in> set ''01234567'') ds
           else if x \<in> set ''xX'' then list_all (\<lambda>c. c \<in> set ''0123456789abcdefABCDEF'') ds
           else False)
      | _ \<Rightarrow> False)"

definition StringToNumber_isNaN :: "string \<Rightarrow> bool" where
  "StringToNumber_isNaN v =
     (let t = trim v in
      if t = [] then False
      else if non_decimal_ok t then False
      else if unsigned_decimal_ok (case t of c # u \<Rightarrow> if c \<in> set ''+-'' then u else t | [] \<Rightarrow> t)
        then False
      else True)"

text \<open>A platform whose date parser accepts nothing beyond what ECMAScript requires.\<close>

definition strict_platform :: "string \<Rightarrow> int option" where
  "strict_platform s = None"

subsection \<open>Sample rows and forms\<close>

definition sample_employee :: EmployeeApiRow where
  "sample_employee =
     \<lparr>ea_id = 1, ea_firstName = ''Ada'', ea_lastName = ''Byron'', ea_email = ''ada@example.org'',
      ea_department = ''Engineering'', ea_position = ''Analyst'', ea_status = ''active'',
      ea_hiredAt = Some ''2024-01-05T10:00:00.000Z''\<rparr>"

definition sample_employee_form :: EmployeeForm where
  "sample_employee_form =
     \<lparr>ef_firstName = ''Ada'', ef_lastName = ''Byron'', ef_email = ''ada@example.org'',
      ef_department = ''Engineering'', ef_position = ''Analyst'', ef_status = ''active'',
      ef_hiredAt = []\<rparr>"

definition sample_benefit :: BenefitApiRow where
  "sample_benefit =
     \<lparr>ba_id = 1, ba_name = ''Dental'', ba_type = ''health'', ba_description = None,
      ba_isActive = ANumber 1\<rparr>"

definition sample_benefit_form :: BenefitForm where
  "sample_benefit_form =
     \<lparr>bf_name = ''Dental'', bf_type = ''health'', bf_description = [], bf_isActive = True\<rparr>"

definition sample_onboarding :: OnboardingApiRow where
  "sample_onboarding =
     \<lparr>oa_id = 1, oa_employeeId = 7, oa_position = ''Analyst'', oa_status = ''not_started'',
      oa_startedAt = None, oa_completedAt = None\<rparr>"

definition sample_onboarding_form :: OnboardingForm where
  "sample_onboarding_form =
     \<lparr>of_employeeId = ''7'', of_position = ''Analyst'', of_status = ''not_started'',
      of_startedAt = []\<rparr>"

definition sample_posting :: JobPostingApiRow where
  "sample_posting =
     \<lparr>ja_id = 1, ja_title = ''Analyst'', ja_department = ''Engineering'', ja_status = ''draft'',
      ja_location = None, ja_createdAt = ''2024-01-05T10:00:00.000Z'',
      ja_updatedAt = ''2024-01-05T10:00:00.000Z''\<rparr>"

definition sample_posting_form :: JobPostingForm where
  "sample_posting_form =
     \<lparr>jf_title = ''Analyst'', jf_department = ''Engineering'', jf_status = ''draft'',
      jf_location = []\<rparr>"

definition sample_absence :: AbsenceApiRow where
  "sample_absence =
     \<lparr>aa_id = 1, aa_employeeId = 7, aa_type = ''vacation'', aa_status = ''requested'',
      aa_startDate = ''2024-01-01'', aa_endDate = ''2024-01-03'',
      aa_createdAt = ''2023-12-01T09:00:00.000Z'', aa_updatedAt = ''2023-12-01T09:00:00.000Z''\<rparr>"

definition sample_absence_form :: AbsenceForm where
  "sample_absence_form =
     \<lparr>af_employeeId = ''7'', af_type = ''vacation'', af_status = ''requested'',
      af_startDate = ''2024-01-01'', af_endDate = ''2024-01-03''\<rparr>"

definition sample_ticket :: ItTicketApiRow where
  "sample_ticket =
     \<lparr>ta_id = 1, ta_title = ''VPN'', ta_owner = ''Ada'', ta_status = ''open'', ta_priority = ''low''\<rparr>"

definition sample_ticket_form :: ItTicketForm where
  "sample_ticket_form =
     \<lparr>tf_title = ''VPN'', tf_owner = ''Ada'', tf_status = ''open'', tf_priority = ''low''\<rparr>"

section \<open>Properties of the authentication context\<close>

subsection \<open>The e-mail shape check\<close>

lemma takeWhile_dropWhile_at:
  assumes "CHR ''@'' \<notin> set a"
  shows "takeWhile (\<lambda>c. c \<noteq> CHR ''@'') (a @ CHR ''@'' # d) = a"
    and "dropWhile (\<lambda>c. c \<noteq> CHR ''@'') (a @ CHR ''@'' # d) = CHR ''@'' # d"
  using assms by (induction a) auto

lemma email_shape_imp_test:
  assumes "email_shape e" shows "emailRegex_test e"
proof -
  from assms obtain a b c where e: "e = a @ ''@'' @ b @ ''.'' @ c"
    and ne: "a \<noteq> []" "b \<noteq> []" "c \<noteq> []"
    and ok: "list_all (\<lambda>x. \<not> isWhiteSpace x \<and> x \<noteq> CHR ''@'') (a @ b @ c)"
    unfolding email_shape_def by blast
  have na: "CHR ''@'' \<notin> set a" "CHR ''@'' \<notin> set b" "CHR ''@'' \<notin> set c"
    using ok by (auto simp: list_all_iff)
  have e': "e = a @ CHR ''@'' # (b @ ''.'' @ c)" using e by simp
  have tw: "takeWhile (\<lambda>c. c \<noteq> CHR ''@'') e = a"
    and dw: "dropWhile (\<lambda>c. c \<noteq> CHR ''@'') e = CHR ''@'' # (b @ ''.'' @ c)"
    unfolding e' using takeWhile_dropWhile_at[OF na(1)] by blast+
  have ws: "list_all (\<lambda>c. \<not> isWhiteSpace c) e"
    using ok unfolding e by (auto simp: list_all_iff isWhiteSpace_def)
  have dot: "CHR ''.'' \<in> set (butlast (tl (b @ ''.'' @ c)))"
    using ne by (cases b) (auto simp: butlast_append)
  show ?thesis
    unfolding emailRegex_test_def Let_def tw dw using ne na ws dot by simp
qed

lemma email_test_imp_shape:
  assumes "emailRegex_test e" shows "email_shape e"
proof -
  let ?P = "\<lambda>c. c \<noteq> CHR ''@''"
  from assms have l: "takeWhile ?P e \<noteq> []" and ws: "list_all (\<lambda>c. \<not> isWhiteSpace c) e"
    unfolding emailRegex_test_def Let_def by auto
  from assms obtain x d where dw: "dropWhile ?P e = x # d" and nd: "CHR ''@'' \<notin> set d"
    and dot: "CHR ''.'' \<in> set (butlast (tl d))"
    unfolding emailRegex_test_def Let_def by (auto split: list.splits)
  have x: "x = CHR ''@''" using dw hd_dropWhile[of ?P e] by (metis list.sel(1) list.simps(3))
  have e: "e = takeWhile ?P e @ CHR ''@'' # d" using dw x takeWhile_dropWhile_id[of ?P e] by simp
  from dot obtain u v where bl: "butlast (tl d) = u @ CHR ''.'' # v" by (meson split_list)
  then have tlne: "tl d \<noteq> []" by auto
  then have dne: "d \<noteq> []" by auto
  have tl: "tl d = u @ CHR ''.'' # v @ [last (tl d)]"
    using bl tlne append_butlast_last_id[of "tl d"] by simp
  have d: "d = (hd d # u) @ ''.'' @ (v @ [last (tl d)])"
    using tl dne by (cases d) auto
  have na: "CHR ''@'' \<notin> set (takeWhile ?P e)" by (auto dest: set_takeWhileD)
  have "e = takeWhile ?P e @ ''@'' @ (hd d # u) @ ''.'' @ (v @ [last (tl d)])"
    using e d by simp
  moreover have "list_all (\<lambda>x. \<not> isWhiteSpace x \<and> x \<noteq> CHR ''@'') (takeWhile ?P e @ (hd d # u) @ (v @ [last (tl d)]))"
  proof -
    have s1: "set e = set (takeWhile ?P e) \<union> insert (CHR ''@'') (set d)"
      using arg_cong[OF e, of set] by auto
    have s2: "set d = set (hd d # u) \<union> insert (CHR ''.'') (set (v @ [last (tl d)]))"
      using arg_cong[OF d, of set] by auto
    have w: "\<forall>x\<in>set e. \<not> isWhiteSpace x" using ws by (simp add: list_all_iff)
    have a1: "\<forall>x\<in>set (takeWhile ?P e). \<not> isWhiteSpace x \<and> x \<noteq> CHR ''@''"
      using w na s1 by blast
    have a2: "\<forall>x\<in>set d. \<not> isWhiteSpace x \<and> x \<noteq> CHR ''@''"
      using w nd s1 by blast
    have a3: "\<forall>x\<in>set (hd d # u) \<union> set (v @ [last (tl d)]). \<not> isWhiteSpace x \<and> x \<noteq> CHR ''@''"
      using a2 s2 by blast
    show ?thesis using a1 a3 by (simp add: list_all_iff ball_Un)
  qed
  ultimately show ?thesis using l unfolding email_shape_def by blast
qed

lemma emailRegex_test_iff: "emailRegex_test e = email_shape e"
  using email_shape_imp_test email_test_imp_shape by blast

subsection \<open>Login, signup and the session invariant\<close>

lemma login_valid_try:
  "login_valid e p \<Longrightarrow> login_try r e p w =
     (let w1 = issue (POST ''/api/auth/login'' (credentials e p)) w in
        case r of
          Rejects \<Rightarrow> (None, w1)
        | Resolves ok body \<Rightarrow>
            if \<not> ok then (Some False, w1)
            else (case body of
                    JsonRejects \<Rightarrow> (None, w1)
                  | JsonNull \<Rightarrow> (None, w1)
                  | Json token' email' \<Rightarrow>
                      (Some True, store_session token' (js_or email' (Str e)) w1)))"
  by (simp add: login_valid_def login_try_def split: if_splits)

lemma login_invalid: "\<not> login_valid e p \<Longrightarrow> login r e p w = (False, w)"
  by (auto simp: login_valid_def login_try_def login_def split: if_splits)

lemma signup_invalid: "\<not> signup_valid e p \<Longrightarrow> signup r rl e p w = (False, w)"
  by (auto simp: signup_valid_def signup_try_def signup_def split: if_splits)

lemma login_cases:
  "login r e p w = (False, w) \<or>
   login r e p w = (False, issue (POST ''/api/auth/login'' (credentials e p)) w) \<or>
   (\<exists>t ue. r = Resolves True (Json t ue) \<and> login_valid e p \<and> login r e p w =
      (True, store_session t (js_or ue (Str e)) (issue (POST ''/api/auth/login'' (credentials e p)) w)))"
proof (cases "login_valid e p")
  case True
  then show ?thesis
    by (auto simp: login_def login_valid_try Let_def split: fetch_result.splits auth_json.splits)
next
  case False
  then show ?thesis by (simp add: login_invalid)
qed

lemma signup_cases:
  "signup r rl e p w = (False, w) \<or>
   signup r rl e p w = (False, issue (POST ''/api/auth/register'' (credentials e p)) w) \<or>
   signup r rl e p w = (False, issue (POST ''/api/auth/login'' (credentials e p)) (issue (POST ''/api/auth/register'' (credentials e p)) w)) \<or>
   (\<exists>treg ue t uel. r = Resolves True (Json treg ue) \<and> rl = Resolves True (Json t uel) \<and> signup_valid e p \<and> signup r rl e p w =
      (True, store_session t (js_or ue (Str e)) (issue (POST ''/api/auth/login'' (credentials e p)) (issue (POST ''/api/auth/register'' (credentials e p)) w))))"
proof (cases "signup_valid e p")
  case True
  then show ?thesis
    by (auto simp: signup_def signup_try_def signup_valid_def Let_def
             split: fetch_result.splits auth_json.splits if_splits)
next
  case False
  then show ?thesis by (simp add: signup_invalid)
qed

lemma issue_simps [simp]:
  "localStorage (issue q w) = localStorage w"
  "isAuthenticated (issue q w) = isAuthenticated w"
  "user (issue q w) = user w"
  "requests (issue q w) = requests w @ [q]"
  by (simp_all add: issue_def)

lemma store_session_simps [simp]:
  "localStorage (store_session t u w) = \<lparr>userToken = Some (ToString t), userData = Some (JSON_stringify_userData u)\<rparr>"
  "isAuthenticated (store_session t u w) = True"
  "user (store_session t u w) = Some (Built u)"
  "requests (store_session t u w) = requests w"
  by (simp_all add: store_session_def)

text \<open>
  Claim C2. A login that passes the client-side checks and is answered 2xx with the body
  \<^verbatim>\<open>{token: "t1", user: {email: "a@b.com"}}\<close> returns \<^verbatim>\<open>true\<close>; afterwards the persisted
  token is \<^verbatim>\<open>t1\<close>, the persisted user record is \<^verbatim>\<open>{"email":"a@b.com"}\<close>, and the
  session is authenticated with that user.
\<close>

theorem login_success_postcondition:
  assumes "login_valid email password"
  shows "(case login (Resolves True (Json (JString ''t1'') (Str ''a@b.com''))) email password w of
           (result, w') \<Rightarrow>
             result = True \<and>
             userToken (localStorage w') = Some ''t1'' \<and>
             userData (localStorage w') = Some ''{\"email\":\"a@b.com\"}'' \<and>
             isAuthenticated w' = True \<and>
             user w' = Some (Built (Str ''a@b.com'')))"
  using assms
  by (simp add: login_def login_valid_try Let_def js_or_def JSON_quote_def JSON_escape_def)

theorem login_success_postcondition_witness:
  "login_valid ''x@y.org'' ''pw'' \<and>
   (case login (Resolves True (Json (JString ''t1'') (Str ''a@b.com''))) ''x@y.org'' ''pw'' empty_world of
           (result, w') \<Rightarrow>
             result = True \<and>
             userToken (localStorage w') = Some ''t1'' \<and>
             userData (localStorage w') = Some ''{\"email\":\"a@b.com\"}'' \<and>
             isAuthenticated w' = True \<and>
             user w' = Some (Built (Str ''a@b.com'')))"
proof -
  have v: "login_valid ''x@y.org'' ''pw''"
    by (simp add: login_valid_def emailRegex_test_def isWhiteSpace_def)
  show ?thesis using v login_success_postcondition [OF v, of empty_world] by simp
qed

lemma login_valid_iff: "login_valid e p = (e \<noteq> [] \<and> p \<noteq> [] \<and> email_shape e)"
  by (auto simp: login_valid_def emailRegex_test_iff)

lemma signup_valid_iff:
  "signup_valid e p =
     (e \<noteq> [] \<and> p \<noteq> [] \<and> email_shape e \<and> 8 \<le> length p \<and>
      (\<exists>c \<in> set p. c \<in> set upperLetters) \<and>
      (\<exists>c \<in> set p. c \<in> set lowerLetters) \<and>
      (\<exists>c \<in> set p. c \<in> set digitChars))"
  by (auto simp: signup_valid_def emailRegex_test_iff hasUpperCase_def hasLowerCase_def
        hasNumber_def list_ex_iff)

lemma login_false_unchanged:
  "fst (login r e p w) = False \<Longrightarrow> session_unchanged w (snd (login r e p w))"
  using login_cases [of r e p w] by (auto simp: session_unchanged_def)

lemma signup_false_unchanged:
  "fst (signup r rl e p w) = False \<Longrightarrow> session_unchanged w (snd (signup r rl e p w))"
  using signup_cases [of r rl e p w] by (auto simp: session_unchanged_def)

lemma login_failures:
  "fst (login Rejects e p w) = False"
  "fst (login (Resolves False b) e p w) = False"
  "fst (login (Resolves True JsonRejects) e p w) = False"
  "fst (login (Resolves True JsonNull) e p w) = False"
  by (simp_all add: login_def login_try_def Let_def)

lemma signup_failures:
  "fst (signup Rejects rl e p w) = False"
  "fst (signup (Resolves False b) rl e p w) = False"
  "fst (signup (Resolves True JsonRejects) rl e p w) = False"
  "fst (signup (Resolves True JsonNull) rl e p w) = False"
  "fst (signup r Rejects e p w) = False"
  "fst (signup r (Resolves False b) e p w) = False"
  "fst (signup r (Resolves True JsonRejects) e p w) = False"
  "fst (signup r (Resolves True JsonNull) e p w) = False"
  by (simp_all add: signup_def signup_try_def Let_def split: fetch_result.splits auth_json.splits)

text \<open>
  Claim C3. Whenever \<^verbatim>\<open>login\<close> or \<^verbatim>\<open>signup\<close> returns \<^verbatim>\<open>false\<close>, the persisted storage,
  \<^verbatim>\<open>isAuthenticated\<close> and \<^verbatim>\<open>user\<close> are what they were. When the client-side checks fail
  (empty field, e-mail not of the shape \<^verbatim>\<open>local@domain.tld\<close>, and for signup a password
  shorter than 8 or lacking an upper-case letter, a lower-case letter or a digit) the whole
  state is unchanged, so no request is issued. A rejected fetch, a non-success status and a
  body that fails to decode all end in \<^verbatim>\<open>false\<close>: both functions return a boolean on every
  input, so no exception reaches the caller.
\<close>

theorem auth_failure_atomicity:
  "(fst (login r e p w) = False \<longrightarrow> session_unchanged w (snd (login r e p w))) \<and>
   (fst (signup r rl e p w) = False \<longrightarrow> session_unchanged w (snd (signup r rl e p w))) \<and>
   (\<not> login_valid e p \<longrightarrow> login r e p w = (False, w)) \<and>
   (\<not> signup_valid e p \<longrightarrow> signup r rl e p w = (False, w)) \<and>
   login_valid e p = (e \<noteq> [] \<and> p \<noteq> [] \<and> email_shape e) \<and>
   signup_valid e p =
     (e \<noteq> [] \<and> p \<noteq> [] \<and> email_shape e \<and> 8 \<le> length p \<and>
      (\<exists>c \<in> set p. c \<in> set upperLetters) \<and>
      (\<exists>c \<in> set p. c \<in> set lowerLetters) \<and>
      (\<exists>c \<in> set p. c \<in> set digitChars)) \<and>
   fst (login Rejects e p w) = False \<and>
   fst (login (Resolves False b) e p w) = False \<and>
   fst (login (Resolves True JsonRejects) e p w) = False \<and>
   fst (login (Resolves True JsonNull) e p w) = False \<and>
   fst (signup Rejects rl e p w) = False \<and>
   fst (signup (Resolves False b) rl e p w) = False \<and>
   fst (signup (Resolves True JsonRejects) rl e p w) = False \<and>
   fst (signup (Resolves True JsonNull) rl e p w) = False \<and>
   fst (signup r Rejects e p w) = False \<and>
   fst (signup r (Resolves False b) e p w) = False \<and>
   fst (signup r (Resolves True JsonRejects) e p w) = False \<and>
   fst (signup r (Resolves True JsonNull) e p w) = False"
  by (intro conjI impI login_valid_iff signup_valid_iff login_failures signup_failures
        login_false_unchanged signup_false_unchanged login_invalid signup_invalid)

text \<open>
  Claim C8. When the registration request succeeds and the login request that follows it
  is answered with a non-success status, \<^verbatim>\<open>signup\<close> returns \<^verbatim>\<open>false\<close>; both requests were
  issued, and neither the storage nor the session state has changed.
\<close>

theorem signup_secondary_login_failure:
  "(signup_valid e p \<longrightarrow>
      signup (Resolves True (Json t ue)) (Resolves False bl) e p w =
        (False, issue (POST ''/api/auth/login'' (credentials e p))
                  (issue (POST ''/api/auth/register'' (credentials e p)) w))) \<and>
   fst (signup (Resolves True breg) (Resolves False bl) e p w) = False \<and>
   session_unchanged w (snd (signup (Resolves True breg) (Resolves False bl) e p w))"
proof -
  have "signup_valid e p \<Longrightarrow>
      signup (Resolves True (Json t ue)) (Resolves False bl) e p w =
        (False, issue (POST ''/api/auth/login'' (credentials e p))
                  (issue (POST ''/api/auth/register'' (credentials e p)) w))"
    by (simp add: signup_def signup_try_def signup_valid_def Let_def split: if_splits)
  moreover have f: "fst (signup (Resolves True breg) (Resolves False bl) e p w) = False"
    by (rule signup_failures)
  moreover note signup_false_unchanged [OF f]
  ultimately show ?thesis by blast
qed

text \<open>
  Claim C9. On each path that persists a session (\<^verbatim>\<open>login\<close>, \<^verbatim>\<open>signup\<close>, auto-login) the
  e-mail of the persisted user record is the submitted one when the response's
  \<^verbatim>\<open>user.email\<close> is absent or empty, and the response's otherwise. For \<^verbatim>\<open>signup\<close> the
  response in question is the one to the registration request.
\<close>

theorem user_email_fallback:
  "(login_valid e p \<longrightarrow>
      (case login (Resolves True (Json t ue)) e p w of
         (result, w') \<Rightarrow> result = True \<and>
           userData (localStorage w') = Some (JSON_stringify_userData (Str (persisted_email ue e))) \<and>
           user w' = Some (Built (Str (persisted_email ue e))))) \<and>
   (signup_valid e p \<longrightarrow>
      (case signup (Resolves True (Json treg ue)) (Resolves True (Json t uel)) e p w of
         (result, w') \<Rightarrow> result = True \<and>
           userData (localStorage w') = Some (JSON_stringify_userData (Str (persisted_email ue e))) \<and>
           user w' = Some (Built (Str (persisted_email ue e))))) \<and>
   (\<not> (truthy_item (userToken (localStorage w)) \<and> truthy_item (userData (localStorage w))) \<and>
    te \<noteq> [] \<and> tp \<noteq> [] \<longrightarrow>
      (case autoLogin (Config (Str te) (Str tp)) (Resolves True (Json t ue)) w of
         w' \<Rightarrow>
           userData (localStorage w') = Some (JSON_stringify_userData (Str (persisted_email ue te))) \<and>
           user w' = Some (Built (Str (persisted_email ue te)))))"
proof -
  have j: "\<And>x. x \<noteq> [] \<Longrightarrow> js_or ue (Str x) = Str (persisted_email ue x)"
    by (cases ue) (simp_all add: js_or_def persisted_email_def)
  have v1: "login_valid e p \<Longrightarrow> e \<noteq> []" and v2: "signup_valid e p \<Longrightarrow> e \<noteq> []"
    by (auto simp: login_valid_def signup_valid_def split: if_splits)
  have "login_valid e p \<Longrightarrow>
      login (Resolves True (Json t ue)) e p w =
        (True, store_session t (Str (persisted_email ue e))
                 (issue (POST ''/api/auth/login'' (credentials e p)) w))"
    using j [OF v1] by (simp add: login_def login_valid_try Let_def)
  moreover have "signup_valid e p \<Longrightarrow>
      signup (Resolves True (Json treg ue)) (Resolves True (Json t uel)) e p w =
        (True, store_session t (Str (persisted_email ue e))
                 (issue (POST ''/api/auth/login'' (credentials e p))
                    (issue (POST ''/api/auth/register'' (credentials e p)) w)))"
    using j [OF v2] by (simp add: signup_def signup_try_def signup_valid_def Let_def split: if_splits)
  moreover have "\<not> (truthy_item (userToken (localStorage w)) \<and> truthy_item (userData (localStorage w))) \<Longrightarrow>
      te \<noteq> [] \<Longrightarrow> tp \<noteq> [] \<Longrightarrow>
      autoLogin (Config (Str te) (Str tp)) (Resolves True (Json t ue)) w =
        store_session t (Str (persisted_email ue te))
          (issue (POST ''/api/auth/login'' [(''email'', BStr te), (''password'', BStr tp)]) w)"
    using j [of te] by (auto simp: autoLogin_def Let_def)
  ultimately show ?thesis by simp
qed











lemmas auth_eval =
  login_def login_try_def signup_def signup_try_def autoLogin_def logout_def
  login_valid_def signup_valid_def emailRegex_test_def isWhiteSpace_def
  hasUpperCase_def hasLowerCase_def hasNumber_def upperLetters_def lowerLetters_def digitChars_def
  issue_def store_session_def credentials_def js_or_def persisted_email_def
  session_unchanged_def session_invariant_def present_nonempty_def empty_world_def
  JSON_quote_def JSON_escape_def Let_def

theorem auth_failure_atomicity_witness:
  "fst (login Rejects ''nobody'' ''abcdefgh'' empty_world) = False \<and>
   session_unchanged empty_world (snd (login Rejects ''nobody'' ''abcdefgh'' empty_world)) \<and>
   fst (signup Rejects Rejects ''a@b.com'' ''abcdefgh'' empty_world) = False \<and>
   session_unchanged empty_world (snd (signup Rejects Rejects ''a@b.com'' ''abcdefgh'' empty_world)) \<and>
   \<not> login_valid ''nobody'' ''abcdefgh'' \<and>
   login Rejects ''nobody'' ''abcdefgh'' empty_world = (False, empty_world) \<and>
   \<not> signup_valid ''a@b.com'' ''abcdefgh'' \<and>
   signup Rejects Rejects ''a@b.com'' ''abcdefgh'' empty_world = (False, empty_world) \<and>
   fst (login (Resolves False JsonRejects) ''a@b.com'' ''abcdefgh'' empty_world) = False \<and>
   session_unchanged empty_world
     (snd (login (Resolves False JsonRejects) ''a@b.com'' ''abcdefgh'' empty_world))"
proof -
  have h1: "\<not> login_valid ''nobody'' ''abcdefgh''"
    by (simp add: auth_eval)
  have h2: "\<not> signup_valid ''a@b.com'' ''abcdefgh''"
    by (simp add: auth_eval)
  have h3: "fst (login (Resolves False JsonRejects) ''a@b.com'' ''abcdefgh'' empty_world) = False"
    by (simp add: auth_eval)
  note a = auth_failure_atomicity [where r=Rejects and e="''nobody''" and p="''abcdefgh''"
             and w=empty_world and rl=Rejects and b=JsonRejects]
  note b = auth_failure_atomicity [where r=Rejects and e="''a@b.com''" and p="''abcdefgh''"
             and w=empty_world and rl=Rejects and b=JsonRejects]
  note c = auth_failure_atomicity [where r="Resolves False JsonRejects" and e="''a@b.com''"
             and p="''abcdefgh''" and w=empty_world and rl=Rejects and b=JsonRejects]
  from a h1 have a': "login Rejects ''nobody'' ''abcdefgh'' empty_world = (False, empty_world)"
    by blast
  from b h2 have b': "signup Rejects Rejects ''a@b.com'' ''abcdefgh'' empty_world = (False, empty_world)"
    by blast
  from c h3 have c': "session_unchanged empty_world
     (snd (login (Resolves False JsonRejects) ''a@b.com'' ''abcdefgh'' empty_world))"
    by blast
  show ?thesis using h1 h2 h3 a' b' c' by (simp add: session_unchanged_def)
qed

theorem signup_secondary_login_failure_witness:
  "signup_valid ''a@b.com'' ''Abcdefg1'' \<and>
   signup (Resolves True (Json JUndefined (Str ''a@b.com''))) (Resolves False JsonRejects)
       ''a@b.com'' ''Abcdefg1'' empty_world =
     (False, issue (POST ''/api/auth/login'' (credentials ''a@b.com'' ''Abcdefg1''))
               (issue (POST ''/api/auth/register'' (credentials ''a@b.com'' ''Abcdefg1'')) empty_world))"
proof -
  have v: "signup_valid ''a@b.com'' ''Abcdefg1''"
    by (simp add: auth_eval)
  from signup_secondary_login_failure
         [where e="''a@b.com''" and p="''Abcdefg1''" and t=JUndefined and ue="Str ''a@b.com''"
            and bl=JsonRejects and w=empty_world and breg=JsonRejects] v
  show ?thesis by blast
qed

theorem user_email_fallback_witness:
  "login_valid ''a@b.com'' ''pw'' \<and>
   userData (localStorage (snd (login (Resolves True (Json (JString ''t1'') (Str []))) ''a@b.com'' ''pw''
       empty_world))) = Some (JSON_stringify_userData (Str ''a@b.com'')) \<and>
   signup_valid ''a@b.com'' ''Abcdefg1'' \<and>
   userData (localStorage (snd (signup (Resolves True (Json JUndefined (Str ''c@d.org'')))
       (Resolves True (Json (JString ''t1'') (Str ''e@f.net''))) ''a@b.com'' ''Abcdefg1'' empty_world))) =
     Some (JSON_stringify_userData (Str ''c@d.org'')) \<and>
   userData (localStorage (autoLogin (Config (Str ''test@x.io'') (Str ''pw''))
       (Resolves True (Json (JString ''t1'') Null)) empty_world)) =
     Some (JSON_stringify_userData (Str ''test@x.io''))"
proof -
  have v1: "login_valid ''a@b.com'' ''pw''" by (simp add: auth_eval)
  have v2: "signup_valid ''a@b.com'' ''Abcdefg1''" by (simp add: auth_eval)
  have v3: "\<not> (truthy_item (userToken (localStorage empty_world)) \<and>
                truthy_item (userData (localStorage empty_world))) \<and>
            ''test@x.io'' \<noteq> [] \<and> ''pw'' \<noteq> []"
    by (simp add: empty_world_def)
  have p1: "persisted_email (Str []) ''a@b.com'' = ''a@b.com''"
    and p2: "persisted_email (Str ''c@d.org'') ''a@b.com'' = ''c@d.org''"
    and p3: "persisted_email Null ''test@x.io'' = ''test@x.io''"
    by (simp_all add: persisted_email_def)
  note a = user_email_fallback [where e="''a@b.com''" and p="''pw''" and t="JString ''t1''"
             and ue="Str []" and w=empty_world]
  note b = user_email_fallback [where e="''a@b.com''" and p="''Abcdefg1''" and t="JString ''t1''"
             and ue="Str ''c@d.org''" and w=empty_world and treg=JUndefined and uel="Str ''e@f.net''"]
  note c = user_email_fallback [where t="JString ''t1''" and ue=Null and w=empty_world
             and te="''test@x.io''" and tp="''pw''"]
  from a [THEN conjunct1, rule_format, OF v1] have a': "userData (localStorage (snd (login (Resolves True (Json (JString ''t1'') (Str [])))
       ''a@b.com'' ''pw'' empty_world))) = Some (JSON_stringify_userData (Str ''a@b.com''))"
    by (simp add: p1 split: prod.splits)
  from b [THEN conjunct2, THEN conjunct1, rule_format, OF v2] have b': "userData (localStorage (snd (signup (Resolves True (Json JUndefined (Str ''c@d.org'')))
       (Resolves True (Json (JString ''t1'') (Str ''e@f.net''))) ''a@b.com'' ''Abcdefg1'' empty_world))) =
     Some (JSON_stringify_userData (Str ''c@d.org''))"
    by (simp add: p2 split: prod.splits)
  from c [THEN conjunct2, THEN conjunct2, rule_format, OF v3] have c': "userData (localStorage (autoLogin (Config (Str ''test@x.io'') (Str ''pw''))
       (Resolves True (Json (JString ''t1'') Null)) empty_world)) =
     Some (JSON_stringify_userData (Str ''test@x.io''))"
    by (simp add: p3)
  show ?thesis using v1 v2 a' b' c' by blast
qed



section \<open>Properties of the data sections\<close>

subsection \<open>The search filter\<close>

lemma str_includes_iff: "str_includes s t = (\<exists>u v. s = u @ t @ v)"
proof (induction s)
  case Nil
  then show ?case by auto
next
  case (Cons c cs)
  show ?case
  proof (cases "prefix t (c # cs)")
    case True
    then obtain v where "c # cs = t @ v" by (auto simp: prefix_def)
    then have "c # cs = [] @ t @ v" by simp
    then have "\<exists>u v. c # cs = u @ t @ v" by blast
    with True show ?thesis by simp
  next
    case False
    have "(\<exists>u v. c # cs = u @ t @ v) = (\<exists>u v. cs = u @ t @ v)"
    proof
      assume "\<exists>u v. c # cs = u @ t @ v"
      then obtain u v where uv: "c # cs = u @ t @ v" by blast
      show "\<exists>u v. cs = u @ t @ v"
      proof (cases u)
        case Nil
        with uv have "prefix t (c # cs)" by (simp add: prefix_def)
        with False show ?thesis by simp
      next
        case (Cons a u')
        with uv have "cs = u' @ t @ v" by simp
        then show ?thesis by blast
      qed
    next
      assume "\<exists>u v. cs = u @ t @ v"
      then obtain u v where "cs = u @ t @ v" by blast
      then have "c # cs = (c # u) @ t @ v" by simp
      then show "\<exists>u v. c # cs = u @ t @ v" by blast
    qed
    with False Cons.IH show ?thesis by simp
  qed
qed

lemma includes_contains:
  "str_includes (toLowerCase field) (toLowerCase t) = contains_ignoring_case field t"
proof
  assume "str_includes (toLowerCase field) (toLowerCase t)"
  then obtain u v where "map toLowerChar field = u @ map toLowerChar t @ v"
    unfolding str_includes_iff toLowerCase_def by blast
  then have "\<exists>u' r. field = u' @ r \<and> u = map toLowerChar u' \<and>
                 map toLowerChar t @ v = map toLowerChar r"
    by (simp only: map_eq_append_conv)
  then obtain u' r where r: "field = u' @ r" "map toLowerChar r = map toLowerChar t @ v"
    by metis
  from r(2) have "\<exists>w' v'. r = w' @ v' \<and> map toLowerChar t = map toLowerChar w' \<and>
                 v = map toLowerChar v'"
    by (simp only: map_eq_append_conv)
  then obtain w' v' where "r = w' @ v'" "map toLowerChar w' = map toLowerChar t"
    by metis
  with r have "field = u' @ w' @ v'" and "map toLowerChar w' = map toLowerChar t"
    by simp_all
  then show "contains_ignoring_case field t"
    unfolding contains_ignoring_case_def toLowerCase_def by blast
next
  assume "contains_ignoring_case field t"
  then obtain u w v where f: "field = u @ w @ v" and w: "toLowerCase w = toLowerCase t"
    unfolding contains_ignoring_case_def by blast
  have "toLowerCase field = toLowerCase u @ toLowerCase t @ toLowerCase v"
    unfolding f using w by (simp add: toLowerCase_def)
  then show "str_includes (toLowerCase field) (toLowerCase t)"
    unfolding str_includes_iff by blast
qed

lemma str_includes_empty: "str_includes s []"
  by (cases s) simp_all

text \<open>
  Claim C10. The employee table shows exactly the rows whose displayed name, department or
  position contains the search term as a substring, letter case aside, in their order;
  the e-mail and the status of a row have no part in the choice; the empty search term
  shows every row.
\<close>

theorem employee_search_filter:
  "filteredEmployees searchTerm employees =
     filter (\<lambda>emp. contains_ignoring_case (e_name emp) searchTerm \<or>
                   contains_ignoring_case (e_department emp) searchTerm \<or>
                   contains_ignoring_case (e_position emp) searchTerm) employees \<and>
   filteredEmployees searchTerm (map (\<lambda>emp. emp\<lparr>e_email := email emp, e_status := status emp\<rparr>) employees) =
     map (\<lambda>emp. emp\<lparr>e_email := email emp, e_status := status emp\<rparr>) (filteredEmployees searchTerm employees) \<and>
   filteredEmployees [] employees = employees"
proof -
  have "filteredEmployees [] employees = employees"
    by (simp add: filteredEmployees_def toLowerCase_def str_includes_empty)
  moreover have "filteredEmployees searchTerm (map (\<lambda>emp. emp\<lparr>e_email := email emp, e_status := status emp\<rparr>) employees) =
     map (\<lambda>emp. emp\<lparr>e_email := email emp, e_status := status emp\<rparr>) (filteredEmployees searchTerm employees)"
    by (simp add: filteredEmployees_def filter_map comp_def)
  ultimately show ?thesis
    by (simp add: filteredEmployees_def includes_contains)
qed

subsection \<open>Loading\<close>

lemma fetchHrData_error:
  "(\<exists>name. fetchHrData outcome = Inl name \<and> name \<noteq> ''AbortError'') =
     (fetch_failed outcome \<and> \<not> aborted outcome)"
  by (cases outcome) (auto split: json_outcome.splits)

lemma fetchItData_error:
  "(\<exists>name. fetchItData outcome = Inl name \<and> name \<noteq> ''AbortError'') =
     (fetch_failed outcome \<and> \<not> aborted outcome)"
  by (cases outcome) (auto split: json_outcome.splits)

lemma load_error_employees:
  "error (EmployeeDataSection_load outcome s) =
     (if fetch_failed outcome \<and> \<not> aborted outcome
      then Some ''Unable to load employees. Please try again later.'' else None)"
  using fetchHrData_error [of outcome]
  by (cases "fetchHrData outcome") (auto simp: EmployeeDataSection_load_def Let_def)

lemma load_error_benefits:
  "error (BenefitsSection_load outcome s) =
     (if fetch_failed outcome \<and> \<not> aborted outcome
      then Some ''Unable to load benefits. Please try again later.'' else None)"
  using fetchHrData_error [of outcome]
  by (cases "fetchHrData outcome") (auto simp: BenefitsSection_load_def Let_def)

lemma load_error_onboarding:
  "error (OnboardingSection_load outcome s) =
     (if fetch_failed outcome \<and> \<not> aborted outcome
      then Some ''Unable to load onboarding data. Please try again later.'' else None)"
  using fetchHrData_error [of outcome]
  by (cases "fetchHrData outcome") (auto simp: OnboardingSection_load_def Let_def)

lemma load_error_recruitment:
  "error (RecruitmentSection_load outcome s) =
     (if fetch_failed outcome \<and> \<not> aborted outcome
      then Some ''Unable to load job postings. Please try again later.'' else None)"
  using fetchHrData_error [of outcome]
  by (cases "fetchHrData outcome") (auto simp: RecruitmentSection_load_def Let_def)

lemma load_error_absences:
  "error (AbsenceManagementSection_load platform outcome s) =
     (if fetch_failed outcome \<and> \<not> aborted outcome
      then Some ''Unable to load absences. Please try again later.'' else None)"
  using fetchHrData_error [of outcome]
  by (cases "fetchHrData outcome") (auto simp: AbsenceManagementSection_load_def Let_def)

lemma load_error_overview:
  "v_error (ItOverviewSection_load outcome v) =
     (if fetch_failed outcome \<and> \<not> aborted outcome
      then Some ''Unable to load IT overview. Please try again later.'' else None)"
  using fetchItData_error [of outcome]
  by (cases "fetchItData outcome") (auto simp: ItOverviewSection_load_def Let_def)

lemma load_error_devices:
  "error (ItDevicesSection_load outcome s) =
     (if fetch_failed outcome \<and> \<not> aborted outcome
      then Some ''Unable to load devices. Please try again later.'' else None)"
  using fetchItData_error [of outcome]
  by (cases "fetchItData outcome") (auto simp: ItDevicesSection_load_def Let_def)

lemma load_error_tickets:
  "error (ItTicketsSection_load outcome s) =
     (if fetch_failed outcome \<and> \<not> aborted outcome
      then Some ''Unable to load tickets. Please try again later.'' else None)"
  using fetchItData_error [of outcome]
  by (cases "fetchItData outcome") (auto simp: ItTicketsSection_load_def Let_def)

text \<open>
  Claim C7. After the list fetch of any section, the error state holds the section's
  message exactly when the fetch failed for a reason other than an abort; after an abort,
  as after a success, it is empty.
\<close>

theorem cancellation_suppression:
  "error (EmployeeDataSection_load employees s_employees) =
     (if fetch_failed employees \<and> \<not> aborted employees
      then Some ''Unable to load employees. Please try again later.'' else None) \<and>
   error (BenefitsSection_load benefits s_benefits) =
     (if fetch_failed benefits \<and> \<not> aborted benefits
      then Some ''Unable to load benefits. Please try again later.'' else None) \<and>
   error (OnboardingSection_load onboarding s_onboarding) =
     (if fetch_failed onboarding \<and> \<not> aborted onboarding
      then Some ''Unable to load onboarding data. Please try again later.'' else None) \<and>
   error (RecruitmentSection_load postings s_postings) =
     (if fetch_failed postings \<and> \<not> aborted postings
      then Some ''Unable to load job postings. Please try again later.'' else None) \<and>
   error (AbsenceManagementSection_load platform absences s_absences) =
     (if fetch_failed absences \<and> \<not> aborted absences
      then Some ''Unable to load absences. Please try again later.'' else None) \<and>
   v_error (ItOverviewSection_load overview s_overview) =
     (if fetch_failed overview \<and> \<not> aborted overview
      then Some ''Unable to load IT overview. Please try again later.'' else None) \<and>
   error (ItDevicesSection_load devices s_devices) =
     (if fetch_failed devices \<and> \<not> aborted devices
      then Some ''Unable to load devices. Please try again later.'' else None) \<and>
   error (ItTicketsSection_load tickets s_tickets) =
     (if fetch_failed tickets \<and> \<not> aborted tickets
      then Some ''Unable to load tickets. Please try again later.'' else None)"
  by (intro conjI load_error_employees load_error_benefits load_error_onboarding
        load_error_recruitment load_error_absences load_error_overview load_error_devices
        load_error_tickets)

subsection \<open>Creating\<close>

lemma mapped_same:
  "Employee_created_mapped = Employee_load_mapped"
  "Benefit_created_mapped = Benefit_load_mapped"
  "Onboarding_created_mapped = Onboarding_load_mapped"
  "JobPosting_created_mapped = JobPosting_load_mapped"
  "Absence_created_mapped platform = Absence_load_mapped platform"
  "ItTicket_created_mapped = ItTicket_load_mapped"
  by (auto simp: fun_eq_iff Employee_created_mapped_def Employee_load_mapped_def
        Benefit_created_mapped_def Benefit_load_mapped_def
        Onboarding_created_mapped_def Onboarding_load_mapped_def
        JobPosting_created_mapped_def JobPosting_load_mapped_def
        Absence_created_mapped_def Absence_load_mapped_def
        ItTicket_created_mapped_def ItTicket_load_mapped_def)

lemma create_employee:
  "\<not> isSubmitting s \<Longrightarrow> Employee_issues (formValues s) = [] \<Longrightarrow>
   EmployeeDataSection_handleSubmit (FetchResolves True (JsonData row)) s =
     s\<lparr>rows := rows s @ [Employee_load_mapped row], isAddOpen := False, formError := None,
       sent := sent s @ [POST ''/api/hr/employees'' (Employee_body (formValues s))]\<rparr>"
  by (simp add: EmployeeDataSection_handleSubmit_def mapped_same Let_def)

lemma create_benefit:
  "\<not> isSubmitting s \<Longrightarrow> Benefit_issues (formValues s) = [] \<Longrightarrow>
   BenefitsSection_handleSubmit (FetchResolves True (JsonData row)) s =
     s\<lparr>rows := rows s @ [Benefit_load_mapped row], isAddOpen := False, formError := None,
       sent := sent s @ [POST ''/api/hr/benefits'' (Benefit_body (formValues s))]\<rparr>"
  by (simp add: BenefitsSection_handleSubmit_def mapped_same Let_def)

lemma create_onboarding:
  "\<not> isSubmitting s \<Longrightarrow> Onboarding_issues isNaN_Number (formValues s) = [] \<Longrightarrow>
   OnboardingSection_handleSubmit isNaN_Number (FetchResolves True (JsonData row)) s =
     s\<lparr>rows := rows s @ [Onboarding_load_mapped row], isAddOpen := False, formError := None,
       sent := sent s @ [POST ''/api/hr/onboarding'' (Onboarding_body (formValues s))]\<rparr>"
  by (simp add: OnboardingSection_handleSubmit_def mapped_same Let_def)

lemma create_posting:
  "\<not> isSubmitting s \<Longrightarrow> JobPosting_issues (formValues s) = [] \<Longrightarrow>
   RecruitmentSection_handleSubmit (FetchResolves True (JsonData row)) s =
     s\<lparr>rows := rows s @ [JobPosting_load_mapped row], isAddOpen := False, formError := None,
       sent := sent s @ [POST ''/api/hr/recruitment'' (JobPosting_body (formValues s))]\<rparr>"
  by (simp add: RecruitmentSection_handleSubmit_def mapped_same Let_def)

lemma create_absence:
  "\<not> isSubmitting s \<Longrightarrow> Absence_issues isNaN_Number (formValues s) = [] \<Longrightarrow>
   AbsenceManagementSection_handleSubmit isNaN_Number platform (FetchResolves True (JsonData row)) s =
     s\<lparr>rows := rows s @ [Absence_load_mapped platform row], isAddOpen := False, formError := None,
       sent := sent s @ [POST ''/api/hr/absences'' (Absence_body (formValues s))]\<rparr>"
  by (simp add: AbsenceManagementSection_handleSubmit_def mapped_same Let_def)

lemma create_ticket:
  "\<not> isSubmitting s \<Longrightarrow> ItTicket_issues (formValues s) = [] \<Longrightarrow>
   ItTicketsSection_handleSubmit (FetchResolves True (JsonData row)) s =
     s\<lparr>rows := rows s @ [ItTicket_load_mapped row], isAddOpen := False, formError := None,
       sent := sent s @ [POST ''/api/it/tickets'' (ItTicket_body (formValues s))]\<rparr>"
  by (simp add: ItTicketsSection_handleSubmit_def mapped_same Let_def)

text \<open>
  Claim C6. A create that is submitted with no validation issue and answered 2xx with a row
  appends that row, mapped as the list fetch maps its rows, at the end of the list; the
  rows already there keep their content and order, the form closes, and the only request
  issued is the \<^verbatim>\<open>POST\<close>: the list is not fetched again.
\<close>

theorem create_success_frame:
  "(\<not> isSubmitting s_emp \<and> Employee_issues (formValues s_emp) = [] \<longrightarrow>
      EmployeeDataSection_handleSubmit (FetchResolves True (JsonData employee)) s_emp =
        s_emp\<lparr>rows := rows s_emp @ [Employee_load_mapped employee], isAddOpen := False,
              formError := None,
              sent := sent s_emp @ [POST ''/api/hr/employees'' (Employee_body (formValues s_emp))]\<rparr>) \<and>
   (\<not> isSubmitting s_ben \<and> Benefit_issues (formValues s_ben) = [] \<longrightarrow>
      BenefitsSection_handleSubmit (FetchResolves True (JsonData benefit)) s_ben =
        s_ben\<lparr>rows := rows s_ben @ [Benefit_load_mapped benefit], isAddOpen := False,
              formError := None,
              sent := sent s_ben @ [POST ''/api/hr/benefits'' (Benefit_body (formValues s_ben))]\<rparr>) \<and>
   (\<not> isSubmitting s_onb \<and> Onboarding_issues isNaN_Number (formValues s_onb) = [] \<longrightarrow>
      OnboardingSection_handleSubmit isNaN_Number (FetchResolves True (JsonData flow)) s_onb =
        s_onb\<lparr>rows := rows s_onb @ [Onboarding_load_mapped flow], isAddOpen := False,
              formError := None,
              sent := sent s_onb @ [POST ''/api/hr/onboarding'' (Onboarding_body (formValues s_onb))]\<rparr>) \<and>
   (\<not> isSubmitting s_job \<and> JobPosting_issues (formValues s_job) = [] \<longrightarrow>
      RecruitmentSection_handleSubmit (FetchResolves True (JsonData posting)) s_job =
        s_job\<lparr>rows := rows s_job @ [JobPosting_load_mapped posting], isAddOpen := False,
              formError := None,
              sent := sent s_job @ [POST ''/api/hr/recruitment'' (JobPosting_body (formValues s_job))]\<rparr>) \<and>
   (\<not> isSubmitting s_abs \<and> Absence_issues isNaN_Number (formValues s_abs) = [] \<longrightarrow>
      AbsenceManagementSection_handleSubmit isNaN_Number platform
          (FetchResolves True (JsonData absence)) s_abs =
        s_abs\<lparr>rows := rows s_abs @ [Absence_load_mapped platform absence], isAddOpen := False,
              formError := None,
              sent := sent s_abs @ [POST ''/api/hr/absences'' (Absence_body (formValues s_abs))]\<rparr>) \<and>
   (\<not> isSubmitting s_tic \<and> ItTicket_issues (formValues s_tic) = [] \<longrightarrow>
      ItTicketsSection_handleSubmit (FetchResolves True (JsonData ticket)) s_tic =
        s_tic\<lparr>rows := rows s_tic @ [ItTicket_load_mapped ticket], isAddOpen := False,
              formError := None,
              sent := sent s_tic @ [POST ''/api/it/tickets'' (ItTicket_body (formValues s_tic))]\<rparr>)"
  by (intro conjI impI; elim conjE)
     (rule create_employee create_benefit create_onboarding create_posting create_absence
        create_ticket; assumption)+










subsection \<open>Mapping rows\<close>

lemma Math_round_days: "Math_round (real_of_int (n * 86400000) / (1000 * 60 * 60 * 24)) = n"
  by (simp add: Math_round_def)
















subsection \<open>Validating a create\<close>


lemmas section_eval =
  mounted_def sample_employee_form_def sample_benefit_form_def sample_onboarding_form_def
  sample_posting_form_def sample_absence_form_def sample_ticket_form_def
  Employee_issues_def Benefit_issues_def Onboarding_issues_def JobPosting_issues_def
  Absence_issues_def ItTicket_issues_def required_def trim_def blank_def isWhiteSpace_def
  StringToNumber_isNaN_def non_decimal_ok_def unsigned_decimal_ok_def exponent_ok_def
  isDigit_def digitChars_def Let_def



theorem create_success_frame_witness:
  "\<not> isSubmitting (mounted sample_ticket_form :: (ItTicket, ItTicketForm) data_section) \<and>
   ItTicket_issues sample_ticket_form = [] \<and>
   ItTicketsSection_handleSubmit (FetchResolves True (JsonData sample_ticket))
       ((mounted sample_ticket_form)\<lparr>rows := [ItTicket_load_mapped sample_ticket]\<rparr>) =
     (mounted sample_ticket_form)
       \<lparr>rows := [ItTicket_load_mapped sample_ticket, ItTicket_load_mapped sample_ticket],
        isAddOpen := False, formError := None,
        sent := [POST ''/api/it/tickets'' (ItTicket_body sample_ticket_form)]\<rparr> \<and>
   Employee_issues sample_employee_form = [] \<and>
   rows (EmployeeDataSection_handleSubmit (FetchResolves True (JsonData sample_employee))
           (mounted sample_employee_form)) = [Employee_load_mapped sample_employee] \<and>
   Benefit_issues sample_benefit_form = [] \<and>
   rows (BenefitsSection_handleSubmit (FetchResolves True (JsonData sample_benefit))
           (mounted sample_benefit_form)) = [Benefit_load_mapped sample_benefit] \<and>
   Onboarding_issues StringToNumber_isNaN sample_onboarding_form = [] \<and>
   rows (OnboardingSection_handleSubmit StringToNumber_isNaN
           (FetchResolves True (JsonData sample_onboarding)) (mounted sample_onboarding_form)) =
     [Onboarding_load_mapped sample_onboarding] \<and>
   JobPosting_issues sample_posting_form = [] \<and>
   rows (RecruitmentSection_handleSubmit (FetchResolves True (JsonData sample_posting))
           (mounted sample_posting_form)) = [JobPosting_load_mapped sample_posting] \<and>
   Absence_issues StringToNumber_isNaN sample_absence_form = [] \<and>
   rows (AbsenceManagementSection_handleSubmit StringToNumber_isNaN strict_platform
           (FetchResolves True (JsonData sample_absence)) (mounted sample_absence_form)) =
     [Absence_load_mapped strict_platform sample_absence]"
proof -
  let ?t = "(mounted sample_ticket_form :: (ItTicket, ItTicketForm) data_section)
              \<lparr>rows := [ItTicket_load_mapped sample_ticket]\<rparr>"
  let ?e = "mounted sample_employee_form :: (Employee, EmployeeForm) data_section"
  let ?b = "mounted sample_benefit_form :: (Benefit, BenefitForm) data_section"
  let ?o = "mounted sample_onboarding_form :: (OnboardingTask, OnboardingForm) data_section"
  let ?j = "mounted sample_posting_form :: (JobPosting, JobPostingForm) data_section"
  let ?a = "mounted sample_absence_form :: (Absence, AbsenceForm) data_section"
  have i: "ItTicket_issues sample_ticket_form = []" "Employee_issues sample_employee_form = []"
          "Benefit_issues sample_benefit_form = []"
          "Onboarding_issues StringToNumber_isNaN sample_onboarding_form = []"
          "JobPosting_issues sample_posting_form = []"
          "Absence_issues StringToNumber_isNaN sample_absence_form = []"
    by (simp_all add: section_eval)
  have h: "\<not> isSubmitting ?t \<and> ItTicket_issues (formValues ?t) = []"
          "\<not> isSubmitting ?e \<and> Employee_issues (formValues ?e) = []"
          "\<not> isSubmitting ?b \<and> Benefit_issues (formValues ?b) = []"
          "\<not> isSubmitting ?o \<and> Onboarding_issues StringToNumber_isNaN (formValues ?o) = []"
          "\<not> isSubmitting ?j \<and> JobPosting_issues (formValues ?j) = []"
          "\<not> isSubmitting ?a \<and> Absence_issues StringToNumber_isNaN (formValues ?a) = []"
    using i by (simp_all add: mounted_def)
  note t = create_success_frame [where s_tic = ?t and ticket = sample_ticket
             and s_emp = ?e and employee = sample_employee
             and s_ben = ?b and benefit = sample_benefit
             and s_onb = ?o and flow = sample_onboarding and isNaN_Number = StringToNumber_isNaN
             and s_job = ?j and posting = sample_posting
             and s_abs = ?a and absence = sample_absence and platform = strict_platform]
  from t h(1) have 1: "ItTicketsSection_handleSubmit (FetchResolves True (JsonData sample_ticket)) ?t =
        ?t\<lparr>rows := rows ?t @ [ItTicket_load_mapped sample_ticket], isAddOpen := False,
              formError := None,
              sent := sent ?t @ [POST ''/api/it/tickets'' (ItTicket_body (formValues ?t))]\<rparr>"
    by blast
  from t h(2) have 2: "EmployeeDataSection_handleSubmit (FetchResolves True (JsonData sample_employee)) ?e =
        ?e\<lparr>rows := rows ?e @ [Employee_load_mapped sample_employee], isAddOpen := False,
              formError := None,
              sent := sent ?e @ [POST ''/api/hr/employees'' (Employee_body (formValues ?e))]\<rparr>"
    by blast
  from t h(3) have 3: "BenefitsSection_handleSubmit (FetchResolves True (JsonData sample_benefit)) ?b =
        ?b\<lparr>rows := rows ?b @ [Benefit_load_mapped sample_benefit], isAddOpen := False,
              formError := None,
              sent := sent ?b @ [POST ''/api/hr/benefits'' (Benefit_body (formValues ?b))]\<rparr>"
    by blast
  from t h(4) have 4: "OnboardingSection_handleSubmit StringToNumber_isNaN
          (FetchResolves True (JsonData sample_onboarding)) ?o =
        ?o\<lparr>rows := rows ?o @ [Onboarding_load_mapped sample_onboarding], isAddOpen := False,
              formError := None,
              sent := sent ?o @ [POST ''/api/hr/onboarding'' (Onboarding_body (formValues ?o))]\<rparr>"
    by blast
  from t h(5) have 5: "RecruitmentSection_handleSubmit (FetchResolves True (JsonData sample_posting)) ?j =
        ?j\<lparr>rows := rows ?j @ [JobPosting_load_mapped sample_posting], isAddOpen := False,
              formError := None,
              sent := sent ?j @ [POST ''/api/hr/recruitment'' (JobPosting_body (formValues ?j))]\<rparr>"
    by blast
  from t h(6) have 6: "AbsenceManagementSection_handleSubmit StringToNumber_isNaN strict_platform
          (FetchResolves True (JsonData sample_absence)) ?a =
        ?a\<lparr>rows := rows ?a @ [Absence_load_mapped strict_platform sample_absence], isAddOpen := False,
              formError := None,
              sent := sent ?a @ [POST ''/api/hr/absences'' (Absence_body (formValues ?a))]\<rparr>"
    by blast
  have r: "\<not> isSubmitting (mounted sample_ticket_form :: (ItTicket, ItTicketForm) data_section)"
    by (simp add: mounted_def)
  show ?thesis
    unfolding 1 2 3 4 5 6 using i r by (simp add: mounted_def)
qed

theorem cancellation_suppression_witness:
  "error (EmployeeDataSection_load (FetchRejects ''AbortError'')
            (mounted sample_employee_form :: (Employee, EmployeeForm) data_section)) = None \<and>
   error (EmployeeDataSection_load (FetchResolves False (JsonThrows ''SyntaxError''))
            (mounted sample_employee_form :: (Employee, EmployeeForm) data_section)) =
     Some ''Unable to load employees. Please try again later.'' \<and>
   error (ItTicketsSection_load (FetchRejects ''TypeError'')
            (mounted sample_ticket_form :: (ItTicket, ItTicketForm) data_section)) =
     Some ''Unable to load tickets. Please try again later.'' \<and>
   error (ItTicketsSection_load (FetchResolves True (JsonData [sample_ticket]))
            (mounted sample_ticket_form :: (ItTicket, ItTicketForm) data_section)) = None"
proof -
  note a = cancellation_suppression
             [where employees = "FetchRejects ''AbortError''"
                and s_employees = "mounted sample_employee_form :: (Employee, EmployeeForm) data_section"
                and tickets = "FetchRejects ''TypeError''"
                and s_tickets = "mounted sample_ticket_form :: (ItTicket, ItTicketForm) data_section"]
  note b = cancellation_suppression
             [where employees = "FetchResolves False (JsonThrows ''SyntaxError'')"
                and s_employees = "mounted sample_employee_form :: (Employee, EmployeeForm) data_section"
                and tickets = "FetchResolves True (JsonData [sample_ticket])"
                and s_tickets = "mounted sample_ticket_form :: (ItTicket, ItTicketForm) data_section"]
  from a [THEN conjunct1] have 1: "error (EmployeeDataSection_load (FetchRejects ''AbortError'')
            (mounted sample_employee_form :: (Employee, EmployeeForm) data_section)) = None"
    by simp
  from b [THEN conjunct1] have 2: "error (EmployeeDataSection_load (FetchResolves False (JsonThrows ''SyntaxError''))
            (mounted sample_employee_form :: (Employee, EmployeeForm) data_section)) =
     Some ''Unable to load employees. Please try again later.''"
    by simp
  from a [THEN conjunct2, THEN conjunct2, THEN conjunct2, THEN conjunct2, THEN conjunct2,
          THEN conjunct2, THEN conjunct2]
  have 3: "error (ItTicketsSection_load (FetchRejects ''TypeError'')
            (mounted sample_ticket_form :: (ItTicket, ItTicketForm) data_section)) =
     Some ''Unable to load tickets. Please try again later.''"
    by simp
  from b [THEN conjunct2, THEN conjunct2, THEN conjunct2, THEN conjunct2, THEN conjunct2,
          THEN conjunct2, THEN conjunct2]
  have 4: "error (ItTicketsSection_load (FetchResolves True (JsonData [sample_ticket]))
            (mounted sample_ticket_form :: (ItTicket, ItTicketForm) data_section)) = None"
    by simp
  show ?thesis using 1 2 3 4 by blast
qed

theorem employee_search_filter_witness:
  "filteredEmployees ''eNg'' [Employee_load_mapped sample_employee,
       Employee_load_mapped (sample_employee\<lparr>ea_department := ''Sales'', ea_email := ''eng@example.org''\<rparr>)] =
     [Employee_load_mapped sample_employee] \<and>
   filteredEmployees [] [Employee_load_mapped sample_employee] = [Employee_load_mapped sample_employee]"
proof -
  have 1: "filteredEmployees ''eNg'' [Employee_load_mapped sample_employee,
       Employee_load_mapped (sample_employee\<lparr>ea_department := ''Sales'', ea_email := ''eng@example.org''\<rparr>)] =
     [Employee_load_mapped sample_employee]"
    by (simp add: filteredEmployees_def Employee_load_mapped_def sample_employee_def
          toLowerCase_def toLowerChar_def lowerLetters_def upperLetters_def toUpperCase_def
          toUpperChar_def)
  from employee_search_filter [of "[]" "[Employee_load_mapped sample_employee]"]
  have 2: "filteredEmployees [] [Employee_load_mapped sample_employee] =
             [Employee_load_mapped sample_employee]"
    by blast
  show ?thesis using 1 2 by blast
qed

end
